theory Spec2Isabelle
  imports
    Main
    "HOL-Library.Word"
    "HOL-Library.Char_ord"
    "HOL-Library.List_Lexorder"
    "HOL-Library.Product_Lexorder"
begin

section \<open>Values and errors\<close>

text \<open>
  The program \<^verbatim>\<open>compile_actions.py\<close> reads rows from an SQLite store through Python's
  \<^verbatim>\<open>sqlite3\<close> module. A column value arrives as \<^verbatim>\<open>None\<close>, an \<^verbatim>\<open>int\<close>, a \<^verbatim>\<open>str\<close> or
  \<^verbatim>\<open>bytes\<close>; \<^verbatim>\<open>encode_blob\<close> also accepts a \<^verbatim>\<open>memoryview\<close>. Bytes are 8-bit words.
  (SQLite's REAL columns do not occur among the columns the program reads as blobs or
  names and are left out of the value type.)
\<close>

type_synonym byte = "8 word"

datatype pyval =
    PyNone
  | PyInt int
  | PyStr string
  | PyBytes "byte list"
  | PyMemoryview "byte list"

text \<open>
  The two ways the program stops with an exception: \<^verbatim>\<open>base64.b64encode\<close> raises
  \<^verbatim>\<open>TypeError\<close> on a value that is not bytes-like, and \<^verbatim>\<open>main\<close> raises
  \<^verbatim>\<open>SystemExit\<close> with a message.
\<close>

datatype error = TypeError | SystemExit string

text \<open>Python's truth value of a column value, as tested by \<^verbatim>\<open>not value\<close>.\<close>

fun truthy :: "pyval \<Rightarrow> bool" where
  "truthy PyNone = False"
| "truthy (PyInt i) = (i \<noteq> 0)"
| "truthy (PyStr s) = (s \<noteq> [])"
| "truthy (PyBytes b) = (b \<noteq> [])"
| "truthy (PyMemoryview b) = (b \<noteq> [])"

section \<open>Base64 (the standard library's \<^verbatim>\<open>base64\<close> module, RFC 4648)\<close>

text \<open>
  \<^verbatim>\<open>base64.b64encode\<close> and \<^verbatim>\<open>base64.b64decode\<close> belong to Python's standard library.
  They are written out here after RFC 4648 with the standard alphabet: three bytes make
  a 24-bit group that is cut into four 6-bit indices into the alphabet; a final group of
  one or two bytes is padded with zero bits and the output with \<^verbatim>\<open>=\<close>.
\<close>

definition b64_alphabet :: string where
  "b64_alphabet = ''ABCDEFGHIJKLMNOPQRSTUVWXYZabcdefghijklmnopqrstuvwxyz0123456789+/''"

definition sextet_char :: "nat \<Rightarrow> char" where
  "sextet_char n = b64_alphabet ! (n mod 64)"

fun index_of :: "'a \<Rightarrow> 'a list \<Rightarrow> nat option" where
  "index_of x [] = None"
| "index_of x (y # ys) = (if x = y then Some 0 else map_option Suc (index_of x ys))"

definition b64_index :: "char \<Rightarrow> nat option" where
  "b64_index c = index_of c b64_alphabet"

fun b64encode :: "byte list \<Rightarrow> string" where
  "b64encode [] = []"
| "b64encode [a] =
     (let n = unat a * 65536
      in [sextet_char (n div 262144), sextet_char (n div 4096), CHR ''='', CHR ''=''])"
| "b64encode [a, b] =
     (let n = unat a * 65536 + unat b * 256
      in [sextet_char (n div 262144), sextet_char (n div 4096), sextet_char (n div 64), CHR ''=''])"
| "b64encode (a # b # c # rest) =
     (let n = unat a * 65536 + unat b * 256 + unat c
      in [sextet_char (n div 262144), sextet_char (n div 4096), sextet_char (n div 64), sextet_char n]
         @ b64encode rest)"

text \<open>
  Decoding of padded base64 text; \<open>None\<close> stands for \<^verbatim>\<open>binascii.Error\<close> (a character
  outside the alphabet, or a length that is not a multiple of four).
\<close>

fun b64decode :: "string \<Rightarrow> byte list option" where
  "b64decode [] = Some []"
| "b64decode (c0 # c1 # c2 # c3 # rest) =
     (if rest = [] \<and> c2 = CHR ''='' \<and> c3 = CHR ''='' then
        (case (b64_index c0, b64_index c1) of
           (Some s0, Some s1) \<Rightarrow> Some [of_nat ((s0 * 64 + s1) div 16)]
         | _ \<Rightarrow> None)
      else if rest = [] \<and> c3 = CHR ''='' then
        (case (b64_index c0, b64_index c1, b64_index c2) of
           (Some s0, Some s1, Some s2) \<Rightarrow>
             (let n = (s0 * 64 + s1) * 64 + s2
              in Some [of_nat (n div 1024), of_nat (n div 4)])
         | _ \<Rightarrow> None)
      else
        (case (b64_index c0, b64_index c1, b64_index c2, b64_index c3) of
           (Some s0, Some s1, Some s2, Some s3) \<Rightarrow>
             (let n = ((s0 * 64 + s1) * 64 + s2) * 64 + s3
              in case b64decode rest of
                   None \<Rightarrow> None
                 | Some bs \<Rightarrow> Some (of_nat (n div 65536) # of_nat (n div 256) # of_nat n # bs))
         | _ \<Rightarrow> None))"
| "b64decode _ = None"

text \<open>\<^verbatim>\<open>base64.b64encode(value)\<close> on a Python value: only bytes-like values are accepted.\<close>

fun py_b64encode :: "pyval \<Rightarrow> error + string" where
  "py_b64encode (PyBytes b) = Inr (b64encode b)"
| "py_b64encode (PyMemoryview b) = Inr (b64encode b)"
| "py_b64encode _ = Inl TypeError"

section \<open>\<^verbatim>\<open>encode_blob\<close>\<close>

text \<open>
  \<^verbatim>\<open>
  def encode_blob(value):
      if value is None:
          return None
      if isinstance(value, memoryview):
          value = value.tobytes()
      if not value:
          return ""
      return base64.b64encode(value).decode("ascii")
  \<close>
  The result is \<^verbatim>\<open>None\<close> or a string; the only exception is the encoder's.
\<close>

fun tobytes :: "pyval \<Rightarrow> pyval" where
  "tobytes (PyMemoryview b) = PyBytes b"
| "tobytes v = v"

definition encode_blob :: "pyval \<Rightarrow> error + string option" where
  "encode_blob v =
     (if v = PyNone then Inr None
      else
        let v' = tobytes v
        in if \<not> truthy v' then Inr (Some [])
           else (case py_b64encode v' of Inl e \<Rightarrow> Inl e | Inr s \<Rightarrow> Inr (Some s)))"

section \<open>The store\<close>

text \<open>
  The relations the program reads, one record per row, with the columns the queries name.
  Field names carry the relation as a prefix (\<open>tool_rowId\<close> is \<^verbatim>\<open>Tools.rowId\<close>). Keys,
  sort orders and localized strings have their declared shapes (integer, text, text or
  NULL); blob-typed and pass-through columns keep any value the store may hold, since
  \<^verbatim>\<open>encode_blob\<close> is where a value of the wrong shape would raise.
\<close>

record tool_row =
  tool_rowId :: int
  tool_id :: string
  tool_toolType :: string
  tool_flags :: pyval
  tool_visibilityFlags :: pyval
  tool_requirements :: pyval
  tool_authenticationPolicy :: pyval
  tool_customIcon :: pyval
  tool_deprecationReplacementId :: pyval
  tool_sourceActionProvider :: pyval
  tool_outputTypeInstance :: pyval
  tool_sourceContainerId :: pyval
  tool_attributionContainerId :: pyval

record tool_localization_row =
  tl_toolId :: int
  tl_locale :: string
  tl_name :: "string option"
  tl_descriptionSummary :: "string option"

record parameter_localization_row =
  pl_toolId :: int
  pl_key :: string
  pl_locale :: string
  pl_name :: "string option"
  pl_description :: "string option"

text \<open>A row of the relation \<^verbatim>\<open>Parameters\<close> and a row of the relation \<^verbatim>\<open>Types\<close>.\<close>

record parameters_table_row =
  p_toolId :: int
  p_key :: string
  p_sortOrder :: int
  p_relationships :: pyval
  p_flags :: pyval
  p_typeId :: "int option"
  p_typeInstance :: pyval

record types_table_row =
  ty_rowId :: int
  ty_id :: pyval
  ty_kind :: pyval
  ty_runtimeFlags :: pyval
  ty_runtimeRequirements :: pyval

text \<open>
  A row as \<^verbatim>\<open>fetch_parameters\<close> returns it: the parameter's columns and the four columns
  of the left-joined type (\<^verbatim>\<open>typeIdentifier\<close>, \<^verbatim>\<open>typeKind\<close>, \<^verbatim>\<open>typeRuntimeFlags\<close>,
  \<^verbatim>\<open>typeRuntimeRequirements\<close>), all NULL when no type matches.
\<close>

record parameter_row =
  param_toolId :: int
  param_key :: string
  param_sortOrder :: int
  param_relationships :: pyval
  param_flags :: pyval
  param_typeId :: "int option"
  param_typeInstance :: pyval
  param_typeIdentifier :: pyval
  param_typeKind :: pyval
  param_typeRuntimeFlags :: pyval
  param_typeRuntimeRequirements :: pyval

record database =
  Tools :: "tool_row list"
  ToolLocalizations :: "tool_localization_row list"
  ParameterLocalizations :: "parameter_localization_row list"
  Parameters :: "parameters_table_row list"
  Types :: "types_table_row list"

section \<open>The fetch functions\<close>

text \<open>
  \<^verbatim>\<open>fetch_tool_rows\<close>:
  \<^verbatim>\<open>SELECT ... FROM Tools WHERE toolType = 'action' ORDER BY rowId\<close>.
\<close>

definition is_action :: "tool_row \<Rightarrow> bool" where
  "is_action t = (tool_toolType t = ''action'')"

definition fetch_tool_rows :: "database \<Rightarrow> tool_row list" where
  "fetch_tool_rows db = sort_key tool_rowId (filter is_action (Tools db))"

text \<open>The subquery \<^verbatim>\<open>SELECT rowId FROM Tools WHERE toolType = 'action'\<close>.\<close>

definition action_rowIds :: "database \<Rightarrow> int list" where
  "action_rowIds db = map tool_rowId (filter is_action (Tools db))"

text \<open>
  The inner \<^verbatim>\<open>query(loc)\<close> of \<^verbatim>\<open>fetch_tool_localizations\<close> and of
  \<^verbatim>\<open>fetch_parameter_localizations\<close>:
  \<^verbatim>\<open>WHERE locale = ? AND toolId IN (SELECT rowId FROM Tools WHERE toolType = 'action')\<close>.
  The rows come in the relation's order (the query has no ORDER BY).
\<close>

definition tool_localization_query :: "database \<Rightarrow> string \<Rightarrow> tool_localization_row list" where
  "tool_localization_query db loc =
     filter (\<lambda>row. tl_locale row = loc \<and> tl_toolId row \<in> set (action_rowIds db))
       (ToolLocalizations db)"

definition parameter_localization_query ::
  "database \<Rightarrow> string \<Rightarrow> parameter_localization_row list" where
  "parameter_localization_query db loc =
     filter (\<lambda>row. pl_locale row = loc \<and> pl_toolId row \<in> set (action_rowIds db))
       (ParameterLocalizations db)"

text \<open>\<^verbatim>\<open>localized.setdefault(k, row)\<close>: store the row unless the key is already there.\<close>

definition setdefault :: "('k \<rightharpoonup> 'r) \<Rightarrow> 'k \<Rightarrow> 'r \<Rightarrow> ('k \<rightharpoonup> 'r)" where
  "setdefault m k row = (case m k of None \<Rightarrow> m(k \<mapsto> row) | Some _ \<Rightarrow> m)"

text \<open>
  The two localization fetchers have the same body but for the query and the key:
  \<^verbatim>\<open>
  localized = {}
  for row in query(locale):
      localized[key(row)] = row
  if fallback_locale and fallback_locale != locale:
      for row in query(fallback_locale):
          localized.setdefault(key(row), row)
  return localized
  \<close>
  \<^verbatim>\<open>fallback_locale\<close> is a string or \<^verbatim>\<open>None\<close>; the guard's first conjunct is Python's truth
  value, false for \<^verbatim>\<open>None\<close> and for the empty string.
\<close>

definition resolve_locale ::
  "(string \<Rightarrow> 'r list) \<Rightarrow> ('r \<Rightarrow> 'k) \<Rightarrow> string \<Rightarrow> string option \<Rightarrow> ('k \<rightharpoonup> 'r)" where
  "resolve_locale query key locale fallback_locale =
     (let localized = foldl (\<lambda>m row. m(key row \<mapsto> row)) Map.empty (query locale)
      in case fallback_locale of
           None \<Rightarrow> localized
         | Some fb \<Rightarrow>
             if fb \<noteq> [] \<and> fb \<noteq> locale
             then foldl (\<lambda>m row. setdefault m (key row) row) localized (query fb)
             else localized)"

definition fetch_tool_localizations ::
  "database \<Rightarrow> string \<Rightarrow> string option \<Rightarrow> (int \<rightharpoonup> tool_localization_row)" where
  "fetch_tool_localizations db locale fallback_locale =
     resolve_locale (tool_localization_query db) tl_toolId locale fallback_locale"

definition fetch_parameter_localizations ::
  "database \<Rightarrow> string \<Rightarrow> string option \<Rightarrow> (int \<times> string \<rightharpoonup> parameter_localization_row)" where
  "fetch_parameter_localizations db locale fallback_locale =
     resolve_locale (parameter_localization_query db) (\<lambda>row. (pl_toolId row, pl_key row))
       locale fallback_locale"

text \<open>
  \<^verbatim>\<open>fetch_parameters\<close>: \<^verbatim>\<open>Parameters JOIN Tools ON Tools.rowId = Parameters.toolId
  LEFT JOIN Types ON Types.rowId = Parameters.typeId WHERE Tools.toolType = 'action'
  ORDER BY Parameters.toolId, Parameters.sortOrder, Parameters.key\<close>.
  Text is compared bytewise (SQLite's default collation), which is the lexicographic
  order of strings.
\<close>

definition joined_row :: "parameters_table_row \<Rightarrow> types_table_row option \<Rightarrow> parameter_row" where
  "joined_row p ty =
     \<lparr> param_toolId = p_toolId p,
       param_key = p_key p,
       param_sortOrder = p_sortOrder p,
       param_relationships = p_relationships p,
       param_flags = p_flags p,
       param_typeId = p_typeId p,
       param_typeInstance = p_typeInstance p,
       param_typeIdentifier = (case ty of None \<Rightarrow> PyNone | Some t \<Rightarrow> ty_id t),
       param_typeKind = (case ty of None \<Rightarrow> PyNone | Some t \<Rightarrow> ty_kind t),
       param_typeRuntimeFlags = (case ty of None \<Rightarrow> PyNone | Some t \<Rightarrow> ty_runtimeFlags t),
       param_typeRuntimeRequirements =
         (case ty of None \<Rightarrow> PyNone | Some t \<Rightarrow> ty_runtimeRequirements t) \<rparr>"

definition left_join_types :: "database \<Rightarrow> parameters_table_row \<Rightarrow> parameter_row list" where
  "left_join_types db p =
     (case filter (\<lambda>ty. Some (ty_rowId ty) = p_typeId p) (Types db) of
        [] \<Rightarrow> [joined_row p None]
      | tys \<Rightarrow> map (\<lambda>ty. joined_row p (Some ty)) tys)"

definition param_order_key :: "parameter_row \<Rightarrow> int \<times> int \<times> string" where
  "param_order_key r = (param_toolId r, param_sortOrder r, param_key r)"

definition fetch_parameters :: "database \<Rightarrow> parameter_row list" where
  "fetch_parameters db =
     sort_key param_order_key
       (concat (map (\<lambda>p. concat (map (\<lambda>t. left_join_types db p)
                       (filter (\<lambda>t. tool_rowId t = p_toolId p \<and> is_action t) (Tools db))))
                (Parameters db)))"

section \<open>\<^verbatim>\<open>build_payload\<close>\<close>

text \<open>The output: one record per dictionary literal of the source.\<close>

record type_object =
  type_rowId :: "int option"
  type_kind :: pyval
  type_runtimeFlags :: pyval
  type_runtimeRequirements :: "string option"
  type_encodedId :: "string option"

record argument =
  arg_key :: string
  arg_name :: string
  arg_description :: "string option"
  arg_sortOrder :: int
  arg_flags :: pyval
  arg_relationships :: "string option"
  arg_typeInstance :: "string option"
  arg_type :: type_object

record tool_object =
  out_rowId :: int
  out_name :: string
  out_description :: "string option"
  out_toolType :: string
  out_sourceActionProvider :: pyval
  out_sourceContainerId :: pyval
  out_attributionContainerId :: pyval
  out_flags :: pyval
  out_visibilityFlags :: pyval
  out_authenticationPolicy :: pyval
  out_deprecationReplacementId :: pyval
  out_requirements :: "string option"
  out_outputTypeInstance :: "string option"
  out_customIcon :: "string option"
  out_arguments :: "argument list"

text \<open>
  \<^verbatim>\<open>x or d\<close> for a string-or-\<^verbatim>\<open>None\<close> \<open>x\<close>: \<open>d\<close> when \<open>x\<close> is \<^verbatim>\<open>None\<close> or the empty string.
\<close>

definition py_or :: "string option \<Rightarrow> string \<Rightarrow> string" where
  "py_or x d = (case x of None \<Rightarrow> d | Some s \<Rightarrow> if s = [] then d else s)"

text \<open>
  The dictionary built for one parameter (lines 132 to 149). A fetched row is never empty,
  so \<^verbatim>\<open>if localized\<close> tests whether the lookup found a row. The four \<^verbatim>\<open>encode_blob\<close> calls
  run in the order of the literal; the first exception ends the function.
\<close>

definition argument_record ::
  "(int \<times> string \<rightharpoonup> parameter_localization_row) \<Rightarrow> parameter_row \<Rightarrow> error + argument" where
  "argument_record parameter_localizations param =
     (let localized = parameter_localizations (param_toolId param, param_key param)
      in case encode_blob (param_relationships param) of Inl e \<Rightarrow> Inl e | Inr relationships \<Rightarrow>
         case encode_blob (param_typeInstance param) of Inl e \<Rightarrow> Inl e | Inr typeInstance \<Rightarrow>
         case encode_blob (param_typeRuntimeRequirements param) of Inl e \<Rightarrow> Inl e
         | Inr runtimeRequirements \<Rightarrow>
         case encode_blob (param_typeIdentifier param) of Inl e \<Rightarrow> Inl e | Inr encodedId \<Rightarrow>
         Inr \<lparr> arg_key = param_key param,
               arg_name = py_or (case localized of None \<Rightarrow> None | Some l \<Rightarrow> pl_name l)
                            (param_key param),
               arg_description = (case localized of None \<Rightarrow> None | Some l \<Rightarrow> pl_description l),
               arg_sortOrder = param_sortOrder param,
               arg_flags = param_flags param,
               arg_relationships = relationships,
               arg_typeInstance = typeInstance,
               arg_type =
                 \<lparr> type_rowId = param_typeId param,
                   type_kind = param_typeKind param,
                   type_runtimeFlags = param_typeRuntimeFlags param,
                   type_runtimeRequirements = runtimeRequirements,
                   type_encodedId = encodedId \<rparr> \<rparr>)"

text \<open>
  The first loop: \<^verbatim>\<open>params_by_tool[param["toolId"]].append({...})\<close> on a
  \<^verbatim>\<open>defaultdict(list)\<close>, and the lookup \<^verbatim>\<open>params_by_tool.get(rowId, [])\<close>.
\<close>

definition get_list :: "('k \<rightharpoonup> 'a list) \<Rightarrow> 'k \<Rightarrow> 'a list" where
  "get_list m k = (case m k of None \<Rightarrow> [] | Some xs \<Rightarrow> xs)"

fun group_parameters ::
  "(int \<times> string \<rightharpoonup> parameter_localization_row) \<Rightarrow> parameter_row list
     \<Rightarrow> (int \<rightharpoonup> argument list) \<Rightarrow> error + (int \<rightharpoonup> argument list)" where
  "group_parameters parameter_localizations [] params_by_tool = Inr params_by_tool"
| "group_parameters parameter_localizations (param # rest) params_by_tool =
     (case argument_record parameter_localizations param of
        Inl e \<Rightarrow> Inl e
      | Inr a \<Rightarrow>
          group_parameters parameter_localizations rest
            (params_by_tool(param_toolId param \<mapsto>
               get_list params_by_tool (param_toolId param) @ [a])))"

text \<open>The dictionary built for one tool (lines 154 to 171).\<close>

definition tool_record ::
  "(int \<rightharpoonup> tool_localization_row) \<Rightarrow> (int \<rightharpoonup> argument list) \<Rightarrow> tool_row
     \<Rightarrow> error + tool_object" where
  "tool_record tool_localizations params_by_tool tool =
     (let localized = tool_localizations (tool_rowId tool)
      in case encode_blob (tool_requirements tool) of Inl e \<Rightarrow> Inl e | Inr requirements \<Rightarrow>
         case encode_blob (tool_outputTypeInstance tool) of Inl e \<Rightarrow> Inl e
         | Inr outputTypeInstance \<Rightarrow>
         case encode_blob (tool_customIcon tool) of Inl e \<Rightarrow> Inl e | Inr customIcon \<Rightarrow>
         Inr \<lparr> out_rowId = tool_rowId tool,
               out_name = py_or (case localized of None \<Rightarrow> None | Some l \<Rightarrow> tl_name l)
                            (tool_id tool),
               out_description =
                 (case localized of None \<Rightarrow> None | Some l \<Rightarrow> tl_descriptionSummary l),
               out_toolType = tool_toolType tool,
               out_sourceActionProvider = tool_sourceActionProvider tool,
               out_sourceContainerId = tool_sourceContainerId tool,
               out_attributionContainerId = tool_attributionContainerId tool,
               out_flags = tool_flags tool,
               out_visibilityFlags = tool_visibilityFlags tool,
               out_authenticationPolicy = tool_authenticationPolicy tool,
               out_deprecationReplacementId = tool_deprecationReplacementId tool,
               out_requirements = requirements,
               out_outputTypeInstance = outputTypeInstance,
               out_customIcon = customIcon,
               out_arguments = get_list params_by_tool (tool_rowId tool) \<rparr>)"

text \<open>The second loop: \<^verbatim>\<open>compiled[tool["id"]] = {...}\<close>.\<close>

fun compile_tools ::
  "(int \<rightharpoonup> tool_localization_row) \<Rightarrow> (int \<rightharpoonup> argument list) \<Rightarrow> tool_row list
     \<Rightarrow> (string \<rightharpoonup> tool_object) \<Rightarrow> error + (string \<rightharpoonup> tool_object)" where
  "compile_tools tool_localizations params_by_tool [] compiled = Inr compiled"
| "compile_tools tool_localizations params_by_tool (tool # rest) compiled =
     (case tool_record tool_localizations params_by_tool tool of
        Inl e \<Rightarrow> Inl e
      | Inr r \<Rightarrow>
          compile_tools tool_localizations params_by_tool rest (compiled(tool_id tool \<mapsto> r)))"

definition build_payload ::
  "tool_row list \<Rightarrow> (int \<rightharpoonup> tool_localization_row)
     \<Rightarrow> (int \<times> string \<rightharpoonup> parameter_localization_row) \<Rightarrow> parameter_row list
     \<Rightarrow> error + (string \<rightharpoonup> tool_object)" where
  "build_payload tools tool_localizations parameter_localizations parameters =
     (case group_parameters parameter_localizations parameters Map.empty of
        Inl e \<Rightarrow> Inl e
      | Inr params_by_tool \<Rightarrow>
          compile_tools tool_localizations params_by_tool tools Map.empty)"

section \<open>The orders of the fetch contract\<close>

text \<open>
  The order \<^verbatim>\<open>ORDER BY Parameters.toolId, Parameters.sortOrder, Parameters.key\<close> on
  fetched parameter rows, and the order by sort order and then key on argument records.
\<close>

definition parameter_le :: "parameter_row \<Rightarrow> parameter_row \<Rightarrow> bool" where
  "parameter_le p q =
     (param_toolId p < param_toolId q
      \<or> (param_toolId p = param_toolId q
          \<and> (param_sortOrder p < param_sortOrder q
              \<or> (param_sortOrder p = param_sortOrder q \<and> param_key p \<le> param_key q))))"

definition argument_le :: "argument \<Rightarrow> argument \<Rightarrow> bool" where
  "argument_le a b =
     (arg_sortOrder a < arg_sortOrder b
      \<or> (arg_sortOrder a = arg_sortOrder b \<and> arg_key a \<le> arg_key b))"

section \<open>Well-formed rows\<close>

text \<open>
  A blob-typed column holds a byte sequence or NULL. The blob-typed columns are the four
  that \<^verbatim>\<open>build_payload\<close> encodes for a parameter and the three it encodes for a tool.
\<close>

fun is_blob_or_null :: "pyval \<Rightarrow> bool" where
  "is_blob_or_null PyNone = True"
| "is_blob_or_null (PyBytes b) = True"
| "is_blob_or_null (PyMemoryview b) = True"
| "is_blob_or_null _ = False"

definition well_formed_parameter :: "parameter_row \<Rightarrow> bool" where
  "well_formed_parameter p =
     (is_blob_or_null (param_relationships p) \<and> is_blob_or_null (param_typeInstance p)
      \<and> is_blob_or_null (param_typeRuntimeRequirements p)
      \<and> is_blob_or_null (param_typeIdentifier p))"

definition well_formed_tool :: "tool_row \<Rightarrow> bool" where
  "well_formed_tool t =
     (is_blob_or_null (tool_requirements t) \<and> is_blob_or_null (tool_outputTypeInstance t)
      \<and> is_blob_or_null (tool_customIcon t))"

section \<open>\<^verbatim>\<open>main\<close>\<close>

text \<open>
  \<^verbatim>\<open>Path(s)\<close> and \<^verbatim>\<open>str(Path(s))\<close> of the standard library's \<^verbatim>\<open>pathlib\<close>, POSIX flavour.
  The root is \<^verbatim>\<open>/\<close>, or \<^verbatim>\<open>//\<close> for exactly two leading slashes
  (\<^verbatim>\<open>posixpath.splitroot\<close>); the parts are the components between slashes that are
  neither empty nor \<^verbatim>\<open>.\<close>; the string is the root followed by the parts joined by
  slashes, and \<^verbatim>\<open>.\<close> when that is empty. The parent drops the last part.
\<close>

fun split_sep :: "string \<Rightarrow> string list" where
  "split_sep [] = [[]]"
| "split_sep (c # cs) =
     (if c = CHR ''/'' then [] # split_sep cs
      else (case split_sep cs of [] \<Rightarrow> [[c]] | x # xs \<Rightarrow> (c # x) # xs))"

fun join_sep :: "string list \<Rightarrow> string" where
  "join_sep [] = []"
| "join_sep [x] = x"
| "join_sep (x # y # ys) = x @ ''/'' @ join_sep (y # ys)"

definition path_root :: "string \<Rightarrow> string" where
  "path_root s =
     (if take 1 s \<noteq> ''/'' then []
      else if take 1 (drop 1 s) \<noteq> ''/'' \<or> take 1 (drop 2 s) = ''/'' then ''/''
      else ''//'')"

definition path_parts :: "string \<Rightarrow> string list" where
  "path_parts s = filter (\<lambda>x. x \<noteq> [] \<and> x \<noteq> ''.'') (split_sep s)"

definition format_path :: "string \<Rightarrow> string list \<Rightarrow> string" where
  "format_path root parts =
     (let r = root @ join_sep parts in if r = [] then ''.'' else r)"

definition path_str :: "string \<Rightarrow> string" where
  "path_str s = format_path (path_root s) (path_parts s)"

definition path_parent :: "string \<Rightarrow> string" where
  "path_parent s = format_path (path_root s) (butlast (path_parts s))"

text \<open>
  \<^verbatim>\<open>json.dumps\<close> accepts \<^verbatim>\<open>None\<close>, integers and strings and raises \<^verbatim>\<open>TypeError\<close> on
  bytes. The encoded blobs, names and keys of the payload are strings or \<^verbatim>\<open>None\<close>; the
  pass-through columns are copied as fetched. The keys of the compiled dictionary are
  public identifiers of the tools, so walking the tools walks the dictionary.
\<close>

fun json_serializable :: "pyval \<Rightarrow> bool" where
  "json_serializable (PyBytes b) = False"
| "json_serializable (PyMemoryview b) = False"
| "json_serializable _ = True"

definition argument_serializable :: "argument \<Rightarrow> bool" where
  "argument_serializable a =
     (json_serializable (arg_flags a) \<and> json_serializable (type_kind (arg_type a))
      \<and> json_serializable (type_runtimeFlags (arg_type a)))"

definition object_serializable :: "tool_object \<Rightarrow> bool" where
  "object_serializable r =
     (json_serializable (out_sourceActionProvider r)
      \<and> json_serializable (out_sourceContainerId r)
      \<and> json_serializable (out_attributionContainerId r)
      \<and> json_serializable (out_flags r)
      \<and> json_serializable (out_visibilityFlags r)
      \<and> json_serializable (out_authenticationPolicy r)
      \<and> json_serializable (out_deprecationReplacementId r)
      \<and> list_all argument_serializable (out_arguments r))"

definition json_dumps_ok :: "tool_row list \<Rightarrow> (string \<rightharpoonup> tool_object) \<Rightarrow> bool" where
  "json_dumps_ok tools compiled =
     list_all (\<lambda>t. case compiled (tool_id t) of None \<Rightarrow> True | Some r \<Rightarrow> object_serializable r)
       tools"

text \<open>
  The command line after \<^verbatim>\<open>argparse\<close>: four strings, each with a default. The world the
  program runs in: the stores that exist, by path; the clock's reading; and the trace of
  what the program did to the outside (connections opened and closed, directories
  created, files written). A path that exists is taken to hold a readable store, and
  creating the directory and writing the file are taken to succeed.
\<close>

record options =
  opt_db :: string
  opt_output :: string
  opt_locale :: string
  opt_fallback_locale :: string

record metadata =
  meta_generatedAt :: string
  meta_locale :: string
  meta_fallbackLocale :: string
  meta_sourceDatabase :: string
  meta_actionCount :: nat

record document =
  doc_metadata :: metadata
  doc_actions :: "string \<rightharpoonup> tool_object"

datatype event =
    Connect string
  | Close string
  | Mkdir_parents string
  | Write_text string document

record world =
  w_store :: "string \<rightharpoonup> database"
  w_now :: string
  w_events :: "event list"

definition emit :: "event list \<Rightarrow> world \<Rightarrow> world" where
  "emit es w = w\<lparr>w_events := w_events w @ es\<rparr>"

fun is_output_event :: "event \<Rightarrow> bool" where
  "is_output_event (Mkdir_parents p) = True"
| "is_output_event (Write_text p d) = True"
| "is_output_event _ = False"

text \<open>
  \<^verbatim>\<open>main\<close> (lines 176 to 242). \<^verbatim>\<open>db_path\<close> and \<^verbatim>\<open>output_path\<close> are \<^verbatim>\<open>Path\<close> objects; the
  message, the connection and \<^verbatim>\<open>sourceDatabase\<close> use \<^verbatim>\<open>db_path\<close>. The connection is closed
  in the \<^verbatim>\<open>finally\<close> clause on every path that opened it. The parent directory is created
  before \<^verbatim>\<open>json.dumps\<close> runs, and the file is written only if that returns. The result is
  the exception that ends the run, or \<open>()\<close>, together with the world afterwards.
\<close>

definition main :: "options \<Rightarrow> world \<Rightarrow> (error + unit) \<times> world" where
  "main args w =
     (let db_path = path_str (opt_db args)
      in case w_store w db_path of
           None \<Rightarrow> (Inl (SystemExit (''Database not found: '' @ db_path)), w)
         | Some conn \<Rightarrow>
             let w1 = emit [Connect db_path] w;
                 tools = fetch_tool_rows conn
             in if tools = []
                then (Inl (SystemExit ''No action tools found in the database.''),
                      emit [Close db_path] w1)
                else
                  let tool_localizations =
                        fetch_tool_localizations conn (opt_locale args)
                          (Some (opt_fallback_locale args));
                      parameter_localizations =
                        fetch_parameter_localizations conn (opt_locale args)
                          (Some (opt_fallback_locale args));
                      parameters = fetch_parameters conn;
                      w2 = emit [Close db_path] w1
                  in case build_payload tools tool_localizations parameter_localizations
                            parameters of
                       Inl e \<Rightarrow> (Inl e, w2)
                     | Inr compiled_actions \<Rightarrow>
                         let payload =
                               \<lparr> doc_metadata =
                                   \<lparr> meta_generatedAt = w_now w,
                                     meta_locale = opt_locale args,
                                     meta_fallbackLocale = opt_fallback_locale args,
                                     meta_sourceDatabase = db_path,
                                     meta_actionCount = card (dom compiled_actions) \<rparr>,
                                 doc_actions = compiled_actions \<rparr>;
                             w3 = emit [Mkdir_parents (path_parent (opt_output args))] w2
                         in if json_dumps_ok tools compiled_actions
                            then (Inr (),
                                  emit [Write_text (path_str (opt_output args)) payload] w3)
                            else (Inl TypeError, w3))"

text \<open>
  The process exit status: 0 on a normal return, 1 when \<^verbatim>\<open>SystemExit\<close> carries a message
  (which Python prints to standard error) or an exception escapes.
\<close>

fun exit_status :: "error + unit \<Rightarrow> nat" where
  "exit_status (Inr u) = 0"
| "exit_status (Inl e) = 1"

section \<open>Example rows\<close>

text \<open>
  Small concrete rows and a store with three action tools, used to run the definitions:
  tool 1 is localized in French and English, tool 2 in English only, and tool 3 only
  under the empty locale string.
\<close>

definition example_tool :: "int \<Rightarrow> string \<Rightarrow> string \<Rightarrow> tool_row" where
  "example_tool rid ident ty =
     \<lparr> tool_rowId = rid, tool_id = ident, tool_toolType = ty, tool_flags = PyInt 0,
       tool_visibilityFlags = PyInt 0, tool_requirements = PyNone,
       tool_authenticationPolicy = PyNone, tool_customIcon = PyNone,
       tool_deprecationReplacementId = PyNone, tool_sourceActionProvider = PyNone,
       tool_outputTypeInstance = PyNone, tool_sourceContainerId = PyNone,
       tool_attributionContainerId = PyNone \<rparr>"

definition example_tl :: "int \<Rightarrow> string \<Rightarrow> string option \<Rightarrow> tool_localization_row" where
  "example_tl rid loc nm =
     \<lparr> tl_toolId = rid, tl_locale = loc, tl_name = nm, tl_descriptionSummary = None \<rparr>"

definition example_pl :: "int \<Rightarrow> string \<Rightarrow> string \<Rightarrow> string option \<Rightarrow> parameter_localization_row" where
  "example_pl rid k loc nm =
     \<lparr> pl_toolId = rid, pl_key = k, pl_locale = loc, pl_name = nm, pl_description = None \<rparr>"

definition example_parameter :: "int \<Rightarrow> string \<Rightarrow> int \<Rightarrow> parameters_table_row" where
  "example_parameter rid k so =
     \<lparr> p_toolId = rid, p_key = k, p_sortOrder = so, p_relationships = PyNone,
       p_flags = PyInt 0, p_typeId = None, p_typeInstance = PyNone \<rparr>"

definition example_db :: database where
  "example_db =
     \<lparr> Tools = [example_tool 1 ''a.one'' ''action'', example_tool 2 ''a.two'' ''action'',
                example_tool 3 ''a.three'' ''action''],
       ToolLocalizations =
         [example_tl 1 ''fr'' (Some ''Un''), example_tl 1 ''en'' (Some ''One''),
          example_tl 2 ''en'' (Some ''Two''), example_tl 3 [] (Some ''Three'')],
       ParameterLocalizations =
         [example_pl 1 ''x'' ''fr'' (Some ''ix''), example_pl 1 ''x'' ''en'' (Some ''ex''),
          example_pl 2 ''y'' ''en'' (Some ''why''), example_pl 3 ''z'' [] (Some ''zed'')],
       Parameters = [example_parameter 1 ''c'' 3, example_parameter 1 ''a'' 1,
                     example_parameter 1 ''b'' 2],
       Types = [] \<rparr>"

text \<open>
  Inputs for \<^verbatim>\<open>build_payload\<close>: tool 1 has a localized name and two parameters (one with a
  localized name, one whose localized name is the empty string); tool 2 has a
  localization whose name is the empty string and no parameter; tool 3 has no
  localization and one parameter; one more parameter row belongs to no tool. No parameter
  has a type. The expected output is written out in full.
\<close>

definition example_param :: "int \<Rightarrow> string \<Rightarrow> int \<Rightarrow> parameter_row" where
  "example_param rid k so =
     \<lparr> param_toolId = rid, param_key = k, param_sortOrder = so,
       param_relationships = PyBytes [0x4d, 0x61], param_flags = PyInt 0,
       param_typeId = None, param_typeInstance = PyBytes [],
       param_typeIdentifier = PyNone, param_typeKind = PyNone,
       param_typeRuntimeFlags = PyNone, param_typeRuntimeRequirements = PyNone \<rparr>"

definition example_tools :: "tool_row list" where
  "example_tools =
     [example_tool 1 ''a.one'' ''action'', example_tool 2 ''a.two'' ''action'',
      example_tool 3 ''a.three'' ''action'']"

definition example_tool_localizations :: "int \<rightharpoonup> tool_localization_row" where
  "example_tool_localizations =
     [1 \<mapsto> example_tl 1 ''en'' (Some ''One''), 2 \<mapsto> example_tl 2 ''en'' (Some [])]"

definition example_parameter_localizations ::
  "int \<times> string \<rightharpoonup> parameter_localization_row" where
  "example_parameter_localizations =
     [(1, ''x'') \<mapsto> example_pl 1 ''x'' ''en'' (Some ''ex''),
      (1, ''y'') \<mapsto> example_pl 1 ''y'' ''en'' (Some [])]"

definition example_parameters :: "parameter_row list" where
  "example_parameters =
     [example_param 1 ''x'' 0, example_param 1 ''y'' 1, example_param 3 ''z'' 0,
      example_param 7 ''orphan'' 0]"

definition null_type :: type_object where
  "null_type =
     \<lparr> type_rowId = None, type_kind = PyNone, type_runtimeFlags = PyNone,
       type_runtimeRequirements = None, type_encodedId = None \<rparr>"

definition example_argument :: "string \<Rightarrow> string \<Rightarrow> int \<Rightarrow> argument" where
  "example_argument k nm so =
     \<lparr> arg_key = k, arg_name = nm, arg_description = None, arg_sortOrder = so,
       arg_flags = PyInt 0, arg_relationships = Some ''TWE='', arg_typeInstance = Some [],
       arg_type = null_type \<rparr>"

definition example_object :: "int \<Rightarrow> string \<Rightarrow> argument list \<Rightarrow> tool_object" where
  "example_object rid nm args =
     \<lparr> out_rowId = rid, out_name = nm, out_description = None, out_toolType = ''action'',
       out_sourceActionProvider = PyNone, out_sourceContainerId = PyNone,
       out_attributionContainerId = PyNone, out_flags = PyInt 0,
       out_visibilityFlags = PyInt 0, out_authenticationPolicy = PyNone,
       out_deprecationReplacementId = PyNone, out_requirements = None,
       out_outputTypeInstance = None, out_customIcon = None, out_arguments = args \<rparr>"

definition example_one :: tool_object where
  "example_one =
     example_object 1 ''One'' [example_argument ''x'' ''ex'' 0, example_argument ''y'' ''y'' 1]"

definition example_two :: tool_object where
  "example_two = example_object 2 ''a.two'' []"

definition example_three :: tool_object where
  "example_three = example_object 3 ''a.three'' [example_argument ''z'' ''z'' 0]"

definition example_compiled :: "string \<rightharpoonup> tool_object" where
  "example_compiled =
     [''a.one'' \<mapsto> example_one, ''a.two'' \<mapsto> example_two, ''a.three'' \<mapsto> example_three]"

text \<open>
  Inputs with nothing but missing data: tool 2 has a localization whose name and summary
  are NULL, tool 3 has none; the two parameters of tool 3 have NULL blobs and no type, one
  of them a localization whose name and description are NULL.
\<close>

definition example_bare_param :: "int \<Rightarrow> string \<Rightarrow> parameter_row" where
  "example_bare_param rid k =
     \<lparr> param_toolId = rid, param_key = k, param_sortOrder = 0,
       param_relationships = PyNone, param_flags = PyInt 0,
       param_typeId = None, param_typeInstance = PyNone,
       param_typeIdentifier = PyNone, param_typeKind = PyNone,
       param_typeRuntimeFlags = PyNone, param_typeRuntimeRequirements = PyNone \<rparr>"

definition example_bare_tools :: "tool_row list" where
  "example_bare_tools =
     [example_tool 2 ''a.two'' ''action'', example_tool 3 ''a.three'' ''action'']"

definition example_bare_tool_localizations :: "int \<rightharpoonup> tool_localization_row" where
  "example_bare_tool_localizations = [2 \<mapsto> example_tl 2 ''en'' None]"

definition example_bare_parameter_localizations ::
  "int \<times> string \<rightharpoonup> parameter_localization_row" where
  "example_bare_parameter_localizations = [(3, ''q'') \<mapsto> example_pl 3 ''q'' ''en'' None]"

definition example_bare_parameters :: "parameter_row list" where
  "example_bare_parameters = [example_bare_param 3 ''p'', example_bare_param 3 ''q'']"

definition example_bare_argument :: "string \<Rightarrow> argument" where
  "example_bare_argument k =
     \<lparr> arg_key = k, arg_name = k, arg_description = None, arg_sortOrder = 0,
       arg_flags = PyInt 0, arg_relationships = None, arg_typeInstance = None,
       arg_type = null_type \<rparr>"

definition example_bare_two :: tool_object where
  "example_bare_two = example_object 2 ''a.two'' []"

definition example_bare_three :: tool_object where
  "example_bare_three =
     example_object 3 ''a.three'' [example_bare_argument ''p'', example_bare_argument ''q'']"

definition example_bare_compiled :: "string \<rightharpoonup> tool_object" where
  "example_bare_compiled = [''a.two'' \<mapsto> example_bare_two, ''a.three'' \<mapsto> example_bare_three]"

text \<open>A world whose only store has no action tool, and a command line that names it.\<close>

definition example_empty_db :: database where
  "example_empty_db =
     \<lparr> Tools = [example_tool 1 ''a.widget'' ''widget''], ToolLocalizations = [],
       ParameterLocalizations = [], Parameters = [], Types = [] \<rparr>"

definition example_args :: options where
  "example_args =
     \<lparr> opt_db = ''./data//raw.sqlite'', opt_output = ''out/compiled.json'',
       opt_locale = ''en'', opt_fallback_locale = ''en'' \<rparr>"

definition example_world :: world where
  "example_world =
     \<lparr> w_store = [''data/raw.sqlite'' \<mapsto> example_empty_db],
       w_now = ''2025-01-01T00:00:00+00:00'', w_events = [] \<rparr>"

section \<open>Base64 round trip\<close>

lemma index_of_nth: "distinct xs \<Longrightarrow> i < length xs \<Longrightarrow> index_of (xs ! i) xs = Some i"
proof (induction xs arbitrary: i)
  case Nil
  then show ?case by simp
next
  case (Cons y ys)
  show ?case
  proof (cases i)
    case 0
    then show ?thesis by simp
  next
    case (Suc j)
    with Cons.prems have "j < length ys" and "ys ! j \<noteq> y" and "distinct ys"
      by auto
    with Cons.IH [of j] Suc show ?thesis by simp
  qed
qed

lemma length_b64_alphabet: "length b64_alphabet = 64"
  by (simp add: b64_alphabet_def)

lemma distinct_b64_alphabet: "distinct b64_alphabet"
  by (simp add: b64_alphabet_def)

lemma pad_notin_b64_alphabet: "CHR ''='' \<notin> set b64_alphabet"
  by (simp add: b64_alphabet_def)

lemma b64_index_sextet_char: "b64_index (sextet_char n) = Some (n mod 64)"
  unfolding b64_index_def sextet_char_def
  by (rule index_of_nth) (simp_all add: distinct_b64_alphabet length_b64_alphabet)

lemma sextet_char_not_pad: "sextet_char n \<noteq> CHR ''=''"
proof -
  have "sextet_char n \<in> set b64_alphabet"
    unfolding sextet_char_def by (rule nth_mem) (simp add: length_b64_alphabet)
  with pad_notin_b64_alphabet show ?thesis by metis
qed

lemma byte_of_nat_low: "(of_nat (x * 256 + unat (b :: byte)) :: byte) = b"
proof -
  have "take_bit LENGTH(8) (x * 256 + unat b) = take_bit LENGTH(8) (unat b)"
    by (simp add: take_bit_eq_mod)
  then have "(of_nat (x * 256 + unat b) :: byte) = of_nat (unat b)"
    by (simp only: word_of_nat_eq_iff)
  then show ?thesis by simp
qed

lemma unat_byte_less: "unat (b :: byte) < 256"
  using unsigned_less [of b] by simp

lemma quad_value:
  fixes n :: nat
  assumes "n < 16777216"
    and s0: "s0 = n div 262144 mod 64" and s1: "s1 = n div 4096 mod 64"
    and s2: "s2 = n div 64 mod 64" and s3: "s3 = n mod 64"
  shows "((s0 * 64 + s1) * 64 + s2) * 64 + s3 = n"
proof -
  define q1 where "q1 = n div 64"
  define q2 where "q2 = q1 div 64"
  define q3 where "q3 = q2 div 64"
  have d2: "n div 4096 = q2"
    unfolding q2_def q1_def by (simp add: div_mult2_eq)
  have d3: "n div 262144 = q3"
    unfolding q3_def q2_def q1_def by (simp add: div_mult2_eq)
  have "q3 < 64"
    using assms(1) unfolding d3 [symmetric] by simp
  then have e0: "s0 = q3" by (simp add: s0 d3)
  have e1: "s1 = q2 mod 64" by (simp only: s1 d2)
  have e2: "s2 = q1 mod 64" by (simp only: s2 q1_def)
  have r2: "s0 * 64 + s1 = q2"
    unfolding e0 e1 q3_def by simp
  have r1: "q2 * 64 + s2 = q1"
    unfolding e2 q2_def by simp
  have r0: "q1 * 64 + s3 = n"
    unfolding s3 q1_def by simp
  show ?thesis
    by (simp only: r2 r1 r0)
qed

lemma sextets_one:
  fixes a :: byte
  assumes n: "n = unat a * 65536"
    and s0: "s0 = n div 262144 mod 64" and s1: "s1 = n div 4096 mod 64"
  shows "(of_nat ((s0 * 64 + s1) div 16) :: byte) = a"
proof -
  have lt: "n < 16777216"
    using unat_byte_less [of a] by (simp add: n)
  have z2: "0 = n div 64 mod 64" and z3: "0 = n mod 64"
    by (simp_all add: n)
  have "((s0 * 64 + s1) * 64 + 0) * 64 + 0 = n"
    by (rule quad_value [OF lt s0 s1 z2 z3])
  then have "(s0 * 64 + s1) * 4096 = (unat a * 16) * 4096"
    by (simp add: n)
  then have "s0 * 64 + s1 = unat a * 16"
    by (simp only: mult_cancel2) simp
  then show ?thesis by simp
qed

lemma sextets_two:
  fixes a b :: byte
  assumes n: "n = unat a * 65536 + unat b * 256"
    and s0: "s0 = n div 262144 mod 64" and s1: "s1 = n div 4096 mod 64"
    and s2: "s2 = n div 64 mod 64"
    and m: "m = (s0 * 64 + s1) * 64 + s2"
  shows "(of_nat (m div 1024) :: byte) = a" and "(of_nat (m div 4) :: byte) = b"
proof -
  have lt: "n < 16777216"
    using unat_byte_less [of a] unat_byte_less [of b] by (simp add: n)
  have z3: "0 = n mod 64"
    by (simp add: n)
  have "((s0 * 64 + s1) * 64 + s2) * 64 + 0 = n"
    by (rule quad_value [OF lt s0 s1 s2 z3])
  then have "m * 64 = (unat a * 1024 + unat b * 4) * 64"
    by (simp add: n m)
  then have m': "m = unat a * 1024 + unat b * 4"
    by (simp only: mult_cancel2) simp
  have "m div 1024 = unat a"
    using unat_byte_less [of b] by (simp add: m')
  then show "(of_nat (m div 1024) :: byte) = a" by simp
  have "m div 4 = unat a * 256 + unat b"
    by (simp add: m')
  then show "(of_nat (m div 4) :: byte) = b"
    by (simp only: byte_of_nat_low)
qed

lemma sextets_three:
  fixes a b c :: byte
  assumes n: "n = unat a * 65536 + unat b * 256 + unat c"
    and s0: "s0 = n div 262144 mod 64" and s1: "s1 = n div 4096 mod 64"
    and s2: "s2 = n div 64 mod 64" and s3: "s3 = n mod 64"
    and m: "m = ((s0 * 64 + s1) * 64 + s2) * 64 + s3"
  shows "(of_nat (m div 65536) :: byte) = a"
    and "(of_nat (m div 256) :: byte) = b"
    and "(of_nat m :: byte) = c"
proof -
  have lt: "n < 16777216"
    using unat_byte_less [of a] unat_byte_less [of b] unat_byte_less [of c] by (simp add: n)
  have "((s0 * 64 + s1) * 64 + s2) * 64 + s3 = n"
    by (rule quad_value [OF lt s0 s1 s2 s3])
  then have mn: "m = n" by (simp only: m)
  have "n div 65536 = unat a"
    using unat_byte_less [of b] unat_byte_less [of c] by (simp add: n)
  then show "(of_nat (m div 65536) :: byte) = a" by (simp add: mn)
  have "n div 256 = unat a * 256 + unat b"
    using unat_byte_less [of c] by (simp add: n)
  then show "(of_nat (m div 256) :: byte) = b"
    by (simp only: mn byte_of_nat_low)
  have "n = (unat a * 256 + unat b) * 256 + unat c"
    by (simp add: n)
  then show "(of_nat m :: byte) = c"
    by (simp only: mn byte_of_nat_low)
qed

lemma b64decode_b64encode: "b64decode (b64encode bs) = Some bs"
proof (induction bs rule: b64encode.induct)
  case 1
  show ?case by simp
next
  case (2 a)
  define n where "n = unat a * 65536"
  define s0 where "s0 = n div 262144 mod 64"
  define s1 where "s1 = n div 4096 mod 64"
  have enc: "b64encode [a] = [sextet_char (n div 262144), sextet_char (n div 4096), CHR ''='', CHR ''='']"
    by (simp only: b64encode.simps Let_def n_def)
  have "b64decode [sextet_char (n div 262144), sextet_char (n div 4096), CHR ''='', CHR ''='']
          = Some [of_nat ((s0 * 64 + s1) div 16)]"
    by (simp add: Let_def b64_index_sextet_char s0_def s1_def)
  then show ?case
    by (simp only: enc sextets_one [OF n_def s0_def s1_def])
next
  case (3 a b)
  define n where "n = unat a * 65536 + unat b * 256"
  define s0 where "s0 = n div 262144 mod 64"
  define s1 where "s1 = n div 4096 mod 64"
  define s2 where "s2 = n div 64 mod 64"
  define m where "m = (s0 * 64 + s1) * 64 + s2"
  have enc: "b64encode [a, b] =
      [sextet_char (n div 262144), sextet_char (n div 4096), sextet_char (n div 64), CHR ''='']"
    by (simp only: b64encode.simps Let_def n_def)
  have "b64decode [sextet_char (n div 262144), sextet_char (n div 4096), sextet_char (n div 64), CHR ''='']
          = Some [of_nat (m div 1024), of_nat (m div 4)]"
    by (simp add: Let_def b64_index_sextet_char sextet_char_not_pad s0_def s1_def s2_def m_def)
  then show ?case
    by (simp only: enc sextets_two [OF n_def s0_def s1_def s2_def m_def])
next
  case (4 a b c rest)
  define n where "n = unat a * 65536 + unat b * 256 + unat c"
  define s0 where "s0 = n div 262144 mod 64"
  define s1 where "s1 = n div 4096 mod 64"
  define s2 where "s2 = n div 64 mod 64"
  define s3 where "s3 = n mod 64"
  define m where "m = ((s0 * 64 + s1) * 64 + s2) * 64 + s3"
  have enc: "b64encode (a # b # c # rest) =
      sextet_char (n div 262144) # sextet_char (n div 4096) # sextet_char (n div 64) # sextet_char n
        # b64encode rest"
    by (simp only: b64encode.simps Let_def n_def append.simps)
  have "b64decode (sextet_char (n div 262144) # sextet_char (n div 4096) # sextet_char (n div 64)
          # sextet_char n # b64encode rest)
          = Some (of_nat (m div 65536) # of_nat (m div 256) # of_nat m # rest)"
    by (simp add: Let_def b64_index_sextet_char sextet_char_not_pad "4.IH" s0_def s1_def s2_def s3_def m_def)
  then show ?case
    by (simp only: enc sextets_three [OF n_def s0_def s1_def s2_def s3_def m_def])
qed

lemma encode_blob_bytes: "encode_blob (PyBytes b) = Inr (Some (b64encode b))"
  by (cases b) (simp_all add: encode_blob_def)

lemma encode_blob_memoryview: "encode_blob (PyMemoryview b) = Inr (Some (b64encode b))"
  by (cases b) (simp_all add: encode_blob_def)

section \<open>The locale resolver\<close>

lemma find_append_cases:
  "find P (xs @ ys) = (case find P xs of None \<Rightarrow> find P ys | Some x \<Rightarrow> Some x)"
  by (induction xs) simp_all

lemma foldl_insert_lookup:
  "foldl (\<lambda>m row. m(key row \<mapsto> row)) m0 rows k =
     (case find (\<lambda>r. key r = k) (rev rows) of None \<Rightarrow> m0 k | Some r \<Rightarrow> Some r)"
proof (induction rows arbitrary: m0)
  case Nil
  show ?case by simp
next
  case (Cons x xs)
  have "foldl (\<lambda>m row. m(key row \<mapsto> row)) m0 (x # xs) k =
      (case find (\<lambda>r. key r = k) (rev xs) of None \<Rightarrow> (m0(key x \<mapsto> x)) k | Some r \<Rightarrow> Some r)"
    by (simp only: foldl_Cons Cons.IH)
  also have "\<dots> =
      (case find (\<lambda>r. key r = k) (rev (x # xs)) of None \<Rightarrow> m0 k | Some r \<Rightarrow> Some r)"
    by (simp add: find_append_cases split: option.splits)
  finally show ?case .
qed

lemma foldl_setdefault_lookup:
  "foldl (\<lambda>m row. setdefault m (key row) row) m0 rows k =
     (case m0 k of None \<Rightarrow> find (\<lambda>r. key r = k) rows | Some r \<Rightarrow> Some r)"
proof (induction rows arbitrary: m0)
  case Nil
  show ?case by (simp split: option.splits)
next
  case (Cons x xs)
  have "foldl (\<lambda>m row. setdefault m (key row) row) m0 (x # xs) k =
      (case setdefault m0 (key x) x k of None \<Rightarrow> find (\<lambda>r. key r = k) xs | Some r \<Rightarrow> Some r)"
    by (simp only: foldl_Cons Cons.IH)
  also have "\<dots> = (case m0 k of None \<Rightarrow> find (\<lambda>r. key r = k) (x # xs) | Some r \<Rightarrow> Some r)"
    by (simp add: setdefault_def split: option.splits)
  finally show ?case .
qed

lemma find_rev_Some:
  "\<exists>r\<in>set rows. P r \<Longrightarrow> \<exists>r\<in>set rows. P r \<and> find P (rev rows) = Some r"
  by (metis find_None_iff find_Some_iff nth_mem not_Some_eq set_rev)

lemma find_Some_mem:
  "\<exists>r\<in>set rows. P r \<Longrightarrow> \<exists>r\<in>set rows. P r \<and> find P rows = Some r"
  by (metis find_None_iff find_Some_iff nth_mem not_Some_eq)

lemma resolve_locale_primary:
  assumes "\<exists>r\<in>set (query L). key r = k"
  shows "\<exists>r\<in>set (query L). key r = k \<and> resolve_locale query key L F k = Some r"
proof -
  from find_rev_Some [of "query L" "\<lambda>r. key r = k"] assms
  obtain r where r: "r \<in> set (query L)" "key r = k"
    and f: "find (\<lambda>r. key r = k) (rev (query L)) = Some r"
    by blast
  have "resolve_locale query key L F k = Some r"
    by (simp add: resolve_locale_def Let_def foldl_insert_lookup foldl_setdefault_lookup f
        split: option.splits)
  with r show ?thesis by blast
qed

lemma resolve_locale_fallback:
  assumes "\<forall>r\<in>set (query L). key r \<noteq> k"
    and "f \<noteq> []" and "f \<noteq> L"
    and "\<exists>r\<in>set (query f). key r = k"
  shows "\<exists>r\<in>set (query f). key r = k \<and> resolve_locale query key L (Some f) k = Some r"
proof -
  from find_Some_mem [of "query f" "\<lambda>r. key r = k"] assms(4)
  obtain r where r: "r \<in> set (query f)" "key r = k"
    and f: "find (\<lambda>r. key r = k) (query f) = Some r"
    by blast
  have n: "find (\<lambda>r. key r = k) (rev (query L)) = None"
    using assms(1) by (simp add: find_None_iff)
  have "resolve_locale query key L (Some f) k = Some r"
    using assms(2,3)
    by (simp add: resolve_locale_def Let_def foldl_insert_lookup foldl_setdefault_lookup f n)
  with r show ?thesis by blast
qed

lemma resolve_locale_absent:
  assumes "\<forall>r\<in>set (query L). key r \<noteq> k"
    and "F = None \<or> F = Some [] \<or> F = Some L \<or> (\<exists>f. F = Some f \<and> (\<forall>r\<in>set (query f). key r \<noteq> k))"
  shows "resolve_locale query key L F k = None"
proof -
  have n: "find (\<lambda>r. key r = k) (rev (query L)) = None"
    using assms(1) by (simp add: find_None_iff)
  show ?thesis
    using assms(2)
    by (auto simp add: resolve_locale_def Let_def foldl_insert_lookup foldl_setdefault_lookup n
        find_None_iff split: option.splits)
qed

section \<open>The payload builder\<close>

lemma group_parameters_lookup:
  assumes "group_parameters ploc ps m0 = Inr m"
    and "list_all2 (\<lambda>a p. argument_record ploc p = Inr a) (get_list m0 t) qs"
  shows "list_all2 (\<lambda>a p. argument_record ploc p = Inr a) (get_list m t)
           (qs @ filter (\<lambda>p. param_toolId p = t) ps)"
  using assms
proof (induction ps arbitrary: m0 qs)
  case Nil
  then show ?case by simp
next
  case (Cons p ps)
  from Cons.prems(1) obtain a where a: "argument_record ploc p = Inr a"
    and rest: "group_parameters ploc ps (m0(param_toolId p \<mapsto> get_list m0 (param_toolId p) @ [a])) = Inr m"
    by (auto split: sum.splits)
  let ?m1 = "m0(param_toolId p \<mapsto> get_list m0 (param_toolId p) @ [a])"
  show ?case
  proof (cases "param_toolId p = t")
    case True
    have "list_all2 (\<lambda>a p. argument_record ploc p = Inr a) (get_list ?m1 t) (qs @ [p])"
      using Cons.prems(2) a True by (simp add: get_list_def list_all2_appendI)
    from Cons.IH [OF rest this] True show ?thesis by simp
  next
    case False
    have "list_all2 (\<lambda>a p. argument_record ploc p = Inr a) (get_list ?m1 t) qs"
      using Cons.prems(2) False by (simp add: get_list_def)
    from Cons.IH [OF rest this] False show ?thesis by simp
  qed
qed

lemma group_parameters_arguments:
  assumes "group_parameters ploc ps Map.empty = Inr m"
  shows "list_all2 (\<lambda>a p. argument_record ploc p = Inr a) (get_list m t)
           (filter (\<lambda>p. param_toolId p = t) ps)"
  using group_parameters_lookup [OF assms, of t "[]"] by (simp add: get_list_def)

lemma compile_tools_lookup:
  assumes "compile_tools tloc pbt ts c0 = Inr c"
  shows "case find (\<lambda>t. tool_id t = k) (rev ts) of
           None \<Rightarrow> c k = c0 k
         | Some t \<Rightarrow> \<exists>r. tool_record tloc pbt t = Inr r \<and> c k = Some r"
  using assms
proof (induction ts arbitrary: c0)
  case Nil
  then show ?case by simp
next
  case (Cons t ts)
  from Cons.prems obtain r where r: "tool_record tloc pbt t = Inr r"
    and rest: "compile_tools tloc pbt ts (c0(tool_id t \<mapsto> r)) = Inr c"
    by (auto split: sum.splits)
  from Cons.IH [OF rest] r show ?case
    by (auto simp add: find_append_cases split: option.splits)
qed

lemma compile_tools_total:
  assumes "\<forall>t\<in>set ts. \<exists>r. tool_record tloc pbt t = Inr r"
  shows "\<exists>c. compile_tools tloc pbt ts c0 = Inr c"
  using assms
proof (induction ts arbitrary: c0)
  case Nil
  show ?case by simp
next
  case (Cons t ts)
  then obtain r where "tool_record tloc pbt t = Inr r" by auto
  with Cons show ?case by simp
qed

lemma group_parameters_total:
  assumes "\<forall>p\<in>set ps. \<exists>a. argument_record ploc p = Inr a"
  shows "\<exists>m. group_parameters ploc ps m0 = Inr m"
  using assms
proof (induction ps arbitrary: m0)
  case Nil
  show ?case by simp
next
  case (Cons p ps)
  then obtain a where "argument_record ploc p = Inr a" by auto
  with Cons show ?case by simp
qed

lemma find_Some_holds: "find P xs = Some x \<Longrightarrow> x \<in> set xs \<and> P x"
  by (induction xs) (auto split: if_splits)

text \<open>Every record of the output is the record of a tool, with that tool's parameters.\<close>

lemma build_payload_record:
  assumes "build_payload tools tloc ploc params = Inr out" and "out k = Some r"
  shows "\<exists>t\<in>set tools. \<exists>pbt. tool_id t = k \<and> tool_record tloc pbt t = Inr r
           \<and> list_all2 (\<lambda>a p. argument_record ploc p = Inr a) (out_arguments r)
                (filter (\<lambda>p. param_toolId p = tool_rowId t) params)"
proof -
  from assms(1) obtain pbt where g: "group_parameters ploc params Map.empty = Inr pbt"
    and c: "compile_tools tloc pbt tools Map.empty = Inr out"
    by (auto simp add: build_payload_def split: sum.splits)
  from compile_tools_lookup [OF c, of k] assms(2)
  obtain t where f: "find (\<lambda>t. tool_id t = k) (rev tools) = Some t"
    and r: "tool_record tloc pbt t = Inr r"
    by (auto split: option.splits)
  from find_Some_holds [OF f] have t: "t \<in> set tools" "tool_id t = k"
    by simp_all
  from r have "out_arguments r = get_list pbt (tool_rowId t)"
    by (auto simp add: tool_record_def Let_def split: sum.splits)
  with group_parameters_arguments [OF g, of "tool_rowId t"] t r show ?thesis
    by auto
qed

text \<open>With distinct public identifiers, every tool is found under its identifier.\<close>

lemma find_rev_distinct:
  assumes "distinct (map f xs)" and "x \<in> set xs"
  shows "find (\<lambda>y. f y = f x) (rev xs) = Some x"
  using assms
proof (induction xs)
  case Nil
  then show ?case by simp
next
  case (Cons y ys)
  show ?case
  proof (cases "x = y")
    case True
    have "find (\<lambda>z. f z = f x) (rev ys) = None"
      using Cons.prems(1) True by (force simp add: find_None_iff image_iff)
    then show ?thesis
      using True by (simp add: find_append_cases)
  next
    case False
    with Cons have "find (\<lambda>z. f z = f x) (rev ys) = Some x"
      by simp
    then show ?thesis
      by (simp add: find_append_cases)
  qed
qed

lemma build_payload_tool:
  assumes "build_payload tools tloc ploc params = Inr out"
    and "distinct (map tool_id tools)" and "t \<in> set tools"
  shows "\<exists>r pbt. out (tool_id t) = Some r \<and> tool_record tloc pbt t = Inr r
           \<and> list_all2 (\<lambda>a p. argument_record ploc p = Inr a) (out_arguments r)
                (filter (\<lambda>p. param_toolId p = tool_rowId t) params)"
proof -
  from assms(1) obtain pbt where g: "group_parameters ploc params Map.empty = Inr pbt"
    and c: "compile_tools tloc pbt tools Map.empty = Inr out"
    by (auto simp add: build_payload_def split: sum.splits)
  from compile_tools_lookup [OF c, of "tool_id t"] find_rev_distinct [OF assms(2,3)]
  obtain r where r: "tool_record tloc pbt t = Inr r" and o: "out (tool_id t) = Some r"
    by auto
  from r have "out_arguments r = get_list pbt (tool_rowId t)"
    by (auto simp add: tool_record_def Let_def split: sum.splits)
  with group_parameters_arguments [OF g, of "tool_rowId t"] r o show ?thesis
    by auto
qed

lemma argument_record_fields:
  assumes "argument_record ploc p = Inr a"
  shows "arg_key a = param_key p"
    and "arg_sortOrder a = param_sortOrder p"
    and "arg_name a =
           py_or (case ploc (param_toolId p, param_key p) of None \<Rightarrow> None | Some l \<Rightarrow> pl_name l)
             (param_key p)"
    and "type_rowId (arg_type a) = param_typeId p"
    and "type_kind (arg_type a) = param_typeKind p"
    and "type_runtimeFlags (arg_type a) = param_typeRuntimeFlags p"
    and "encode_blob (param_typeRuntimeRequirements p) = Inr (type_runtimeRequirements (arg_type a))"
    and "encode_blob (param_typeIdentifier p) = Inr (type_encodedId (arg_type a))"
  using assms by (auto simp add: argument_record_def Let_def split: sum.splits)

lemma tool_record_fields:
  assumes "tool_record tloc pbt t = Inr r"
  shows "out_rowId r = tool_rowId t"
    and "out_name r =
           py_or (case tloc (tool_rowId t) of None \<Rightarrow> None | Some l \<Rightarrow> tl_name l) (tool_id t)"
    and "out_arguments r = get_list pbt (tool_rowId t)"
  using assms by (auto simp add: tool_record_def Let_def split: sum.splits)

text \<open>
  Every record of the output, as seen from the record: it stands under the public
  identifier of a tool whose row identifier it carries, and its arguments are the records
  of the parameter rows owned by that row identifier, in their order.
\<close>

lemma build_payload_output:
  assumes "build_payload tools tloc ploc params = Inr out" and "out k = Some r"
  shows "out_rowId r \<in> tool_rowId ` set tools"
    and "out_name r =
           py_or (case tloc (out_rowId r) of None \<Rightarrow> None | Some l \<Rightarrow> tl_name l) k"
    and "list_all2 (\<lambda>a p. argument_record ploc p = Inr a) (out_arguments r)
           (filter (\<lambda>p. param_toolId p = out_rowId r) params)"
proof -
  from build_payload_record [OF assms]
  obtain t pbt where t: "t \<in> set tools" "tool_id t = k"
    and r: "tool_record tloc pbt t = Inr r"
    and l: "list_all2 (\<lambda>a p. argument_record ploc p = Inr a) (out_arguments r)
               (filter (\<lambda>p. param_toolId p = tool_rowId t) params)"
    by blast
  from tool_record_fields(1,2) [OF r] t l
  show "out_rowId r \<in> tool_rowId ` set tools"
    and "out_name r =
           py_or (case tloc (out_rowId r) of None \<Rightarrow> None | Some l \<Rightarrow> tl_name l) k"
    and "list_all2 (\<lambda>a p. argument_record ploc p = Inr a) (out_arguments r)
           (filter (\<lambda>p. param_toolId p = out_rowId r) params)"
    by auto
qed

lemma list_all2_left_mem:
  "list_all2 R xs ys \<Longrightarrow> x \<in> set xs \<Longrightarrow> \<exists>y\<in>set ys. R x y"
  by (induction rule: list_all2_induct) auto

lemma list_all2_right_mem:
  "list_all2 R xs ys \<Longrightarrow> y \<in> set ys \<Longrightarrow> \<exists>x\<in>set xs. R x y"
  by (induction rule: list_all2_induct) auto

lemma build_payload_argument:
  assumes "build_payload tools tloc ploc params = Inr out" and "out k = Some r"
    and "a \<in> set (out_arguments r)"
  shows "\<exists>p\<in>set params. param_toolId p = out_rowId r \<and> argument_record ploc p = Inr a"
proof -
  from list_all2_left_mem [OF build_payload_output(3) [OF assms(1,2)] assms(3)]
  obtain p where "p \<in> set (filter (\<lambda>p. param_toolId p = out_rowId r) params)"
    and "argument_record ploc p = Inr a"
    by blast
  then show ?thesis by auto
qed

lemma lex_triple_le:
  fixes a a' :: int and b b' :: int and c c' :: string
  shows "(a, b, c) \<le> (a', b', c') \<longleftrightarrow> a < a' \<or> (a = a' \<and> (b < b' \<or> (b = b' \<and> c \<le> c')))"
  unfolding less_eq_prod_def fst_conv snd_conv
  by (metis less_le not_less)

lemma param_order_key_le: "param_order_key p \<le> param_order_key q \<longleftrightarrow> parameter_le p q"
  unfolding param_order_key_def parameter_le_def by (rule lex_triple_le)

lemma fetch_parameters_ordered: "sorted_wrt parameter_le (fetch_parameters db)"
proof -
  have "sorted (map param_order_key (fetch_parameters db))"
    unfolding fetch_parameters_def by (rule sorted_sort_key)
  then show ?thesis
    by (simp add: sorted_map param_order_key_le)
qed

lemma sorted_wrt_list_all2:
  assumes "list_all2 R xs ys" and "sorted_wrt Q ys"
    and "\<And>x y x' y'. R x y \<Longrightarrow> R x' y' \<Longrightarrow> y \<in> set ys \<Longrightarrow> y' \<in> set ys \<Longrightarrow> Q y y' \<Longrightarrow> Q' x x'"
  shows "sorted_wrt Q' xs"
  using assms
proof (induction rule: list_all2_induct)
  case Nil
  show ?case by simp
next
  case (Cons x xs y ys)
  have "Q' x x'" if "x' \<in> set xs" for x'
  proof -
    from list_all2_left_mem [OF Cons.hyps(2) that]
    obtain y' where "y' \<in> set ys" and "R x' y'" by blast
    with Cons.prems(1) Cons.hyps(1) Cons.prems(2) [of x y x' y'] show ?thesis
      by simp
  qed
  moreover have "sorted_wrt Q' xs"
    using Cons.prems by (intro Cons.IH) auto
  ultimately show ?case by simp
qed

lemma distinct_map_neq:
  "distinct (map f xs) \<Longrightarrow> x \<in> set xs \<Longrightarrow> y \<in> set xs \<Longrightarrow> x \<noteq> y \<Longrightarrow> f x \<noteq> f y"
  by (auto simp add: distinct_map inj_on_def)

lemma list_all2_functional:
  assumes "list_all2 (\<lambda>a p. f p = Inr a) xs ps" and "list_all2 (\<lambda>a p. f p = Inr a) ys ps"
  shows "xs = ys"
  using assms
proof (induction arbitrary: ys rule: list_all2_induct)
  case Nil
  then show ?case by simp
next
  case (Cons x xs p ps)
  from Cons.prems obtain y ys' where ys: "ys = y # ys'" and y: "f p = Inr y"
    and r: "list_all2 (\<lambda>a p. f p = Inr a) ys' ps"
    by (auto simp add: list_all2_Cons2)
  from Cons.hyps(1) y have "x = y" by simp
  moreover from Cons.IH [OF r] have "xs = ys'" .
  ultimately show ?case using ys by simp
qed

lemma compile_tools_cong:
  assumes "\<forall>t\<in>set ts. tool_record tloc m t = tool_record tloc m' t"
  shows "compile_tools tloc m ts c = compile_tools tloc m' ts c"
  using assms by (induction ts arbitrary: c) (simp_all split: sum.splits)

lemma tool_record_cong:
  assumes "get_list m (tool_rowId t) = get_list m' (tool_rowId t)"
  shows "tool_record tloc m t = tool_record tloc m' t"
  unfolding tool_record_def assms ..

lemma argument_record_no_type:
  assumes "argument_record ploc p = Inr a"
    and "param_typeRuntimeRequirements p = PyNone" and "param_typeIdentifier p = PyNone"
  shows "type_runtimeRequirements (arg_type a) = None" and "type_encodedId (arg_type a) = None"
  using argument_record_fields(7,8) [OF assms(1)] assms(2,3)
  by (simp_all add: encode_blob_def)

lemma encode_blob_total: "is_blob_or_null v \<Longrightarrow> \<exists>s. encode_blob v = Inr s"
  by (cases v) (simp_all add: encode_blob_bytes encode_blob_memoryview encode_blob_def)

lemma argument_record_total:
  assumes "well_formed_parameter p"
  shows "\<exists>a. argument_record ploc p = Inr a"
proof -
  from assms obtain s1 s2 s3 s4 where
    "encode_blob (param_relationships p) = Inr s1"
    "encode_blob (param_typeInstance p) = Inr s2"
    "encode_blob (param_typeRuntimeRequirements p) = Inr s3"
    "encode_blob (param_typeIdentifier p) = Inr s4"
    unfolding well_formed_parameter_def by (metis encode_blob_total)
  then show ?thesis
    by (simp add: argument_record_def Let_def)
qed

lemma tool_record_total:
  assumes "well_formed_tool t"
  shows "\<exists>r. tool_record tloc pbt t = Inr r"
proof -
  from assms obtain s1 s2 s3 where
    "encode_blob (tool_requirements t) = Inr s1"
    "encode_blob (tool_outputTypeInstance t) = Inr s2"
    "encode_blob (tool_customIcon t) = Inr s3"
    unfolding well_formed_tool_def by (metis encode_blob_total)
  then show ?thesis
    by (simp add: tool_record_def Let_def)
qed

lemma compile_tools_dom:
  assumes "compile_tools tloc pbt ts c0 = Inr c"
  shows "dom c = dom c0 \<union> tool_id ` set ts"
  using assms
proof (induction ts arbitrary: c0)
  case Nil
  then show ?case by simp
next
  case (Cons t ts)
  from Cons.prems obtain r where rest: "compile_tools tloc pbt ts (c0(tool_id t \<mapsto> r)) = Inr c"
    by (auto split: sum.splits)
  from Cons.IH [OF rest] show ?case by auto
qed

lemma fetch_tool_rows_empty: "fetch_tool_rows db = [] \<longleftrightarrow> (\<forall>t\<in>set (Tools db). \<not> is_action t)"
proof -
  have "fetch_tool_rows db = [] \<longleftrightarrow> set (fetch_tool_rows db) = {}"
    by simp
  also have "\<dots> \<longleftrightarrow> (\<forall>t\<in>set (Tools db). \<not> is_action t)"
    unfolding fetch_tool_rows_def by (auto simp add: filter_empty_conv)
  finally show ?thesis .
qed

section \<open>The example, run\<close>

lemma example_blob: "encode_blob (PyBytes [0x4d, 0x61]) = Inr (Some ''TWE='')"
  by (simp add: encode_blob_bytes sextet_char_def b64_alphabet_def)

lemma example_blob_empty: "encode_blob (PyBytes []) = Inr (Some [])"
  by (simp add: encode_blob_def)

lemma example_blob_null: "encode_blob PyNone = Inr None"
  by (simp add: encode_blob_def)

lemma example_argument_x:
  "argument_record example_parameter_localizations (example_param 1 ''x'' 0)
     = Inr (example_argument ''x'' ''ex'' 0)"
  by (simp add: argument_record_def example_param_def example_argument_def null_type_def
      example_parameter_localizations_def example_pl_def py_or_def
      example_blob example_blob_empty example_blob_null)

lemma example_argument_y:
  "argument_record example_parameter_localizations (example_param 1 ''y'' 1)
     = Inr (example_argument ''y'' ''y'' 1)"
  by (simp add: argument_record_def example_param_def example_argument_def null_type_def
      example_parameter_localizations_def example_pl_def py_or_def
      example_blob example_blob_empty example_blob_null)

lemma example_argument_z:
  "argument_record example_parameter_localizations (example_param 3 ''z'' 0)
     = Inr (example_argument ''z'' ''z'' 0)"
  by (simp add: argument_record_def example_param_def example_argument_def null_type_def
      example_parameter_localizations_def example_pl_def py_or_def
      example_blob example_blob_empty example_blob_null)

lemma example_argument_orphan:
  "argument_record example_parameter_localizations (example_param 7 ''orphan'' 0)
     = Inr (example_argument ''orphan'' ''orphan'' 0)"
  by (simp add: argument_record_def example_param_def example_argument_def null_type_def
      example_parameter_localizations_def example_pl_def py_or_def
      example_blob example_blob_empty example_blob_null)

lemma example_param_toolId: "param_toolId (example_param rid k so) = rid"
  by (simp add: example_param_def)

lemma example_tool_record:
  "tool_record example_tool_localizations pbt (example_tool rid ident ''action'')
     = Inr (example_object rid
              (py_or (case example_tool_localizations rid of None \<Rightarrow> None | Some l \<Rightarrow> tl_name l) ident)
              (get_list pbt rid))"
  by (simp add: tool_record_def example_tool_def example_object_def example_blob_null
      example_tool_localizations_def example_tl_def)

lemma example_tool_localizations_lookup:
  "example_tool_localizations 1 = Some (example_tl 1 ''en'' (Some ''One''))"
  "example_tool_localizations 2 = Some (example_tl 2 ''en'' (Some []))"
  "example_tool_localizations 3 = None"
  by (simp_all add: example_tool_localizations_def)

lemma example_tool_id: "tool_id (example_tool rid ident ty) = ident"
  by (simp add: example_tool_def)

lemma example_build:
  "build_payload example_tools example_tool_localizations example_parameter_localizations
     example_parameters = Inr example_compiled"
  by (simp add: build_payload_def example_parameters_def example_tools_def
      example_argument_x example_argument_y example_argument_z example_argument_orphan
      example_param_toolId example_tool_record get_list_def py_or_def
      example_tool_localizations_lookup example_tool_id example_tl_def
      example_compiled_def example_one_def example_two_def example_three_def)


lemma example_compiled_lookup:
  "example_compiled ''a.one'' = Some example_one"
  "example_compiled ''a.two'' = Some example_two"
  "example_compiled ''a.three'' = Some example_three"
  by (simp_all add: example_compiled_def)

lemma example_parameter_localizations_lookup:
  "example_parameter_localizations (1, ''x'') = Some (example_pl 1 ''x'' ''en'' (Some ''ex''))"
  "example_parameter_localizations (1, ''y'') = Some (example_pl 1 ''y'' ''en'' (Some []))"
  "example_parameter_localizations (3, ''z'') = None"
  by (simp_all add: example_parameter_localizations_def)

lemma example_localization_names:
  "tl_name (example_tl rid loc nm) = nm" "pl_name (example_pl rid k loc nm) = nm"
  by (simp_all add: example_tl_def example_pl_def)

lemma example_rowIds:
  "out_rowId example_one = 1" "out_rowId example_two = 2" "out_rowId example_three = 3"
  by (simp_all add: example_one_def example_two_def example_three_def example_object_def)

lemma example_arguments:
  "out_arguments example_one = [example_argument ''x'' ''ex'' 0, example_argument ''y'' ''y'' 1]"
  "out_arguments example_two = []"
  "out_arguments example_three = [example_argument ''z'' ''z'' 0]"
  by (simp_all add: example_one_def example_two_def example_three_def example_object_def)

lemma example_argument_keys:
  "arg_key (example_argument k nm so) = k" "arg_sortOrder (example_argument k nm so) = so"
  by (simp_all add: example_argument_def)

lemma example_owned:
  "filter (\<lambda>p. param_toolId p = 1) example_parameters
     = [example_param 1 ''x'' 0, example_param 1 ''y'' 1]"
  "filter (\<lambda>p. param_toolId p = 2) example_parameters = []"
  "filter (\<lambda>p. param_toolId p = 3) example_parameters = [example_param 3 ''z'' 0]"
  by (simp_all add: example_parameters_def example_param_toolId)

lemma example_tool_rowIds: "tool_rowId ` set example_tools = {1, 2, 3}"
  by (simp add: example_tools_def example_tool_def)

text \<open>
  The fetch functions on the example store: the parameters of tool 1 are stored with sort
  orders 3, 1, 2 and keys \<^verbatim>\<open>c\<close>, \<^verbatim>\<open>a\<close>, \<^verbatim>\<open>b\<close> and are fetched in the order 1, 2, 3.
\<close>

lemma example_fetch_parameters:
  "map (\<lambda>r. (param_toolId r, param_sortOrder r, param_key r)) (fetch_parameters example_db)
     = [(1, 1, ''a''), (1, 2, ''b''), (1, 3, ''c'')]"
  by (simp add: fetch_parameters_def left_join_types_def joined_row_def param_order_key_def
      example_db_def example_parameter_def example_tool_def is_action_def less_eq_prod_def)

lemma example_fetch_tool_rows:
  "map tool_id (fetch_tool_rows example_db) = [''a.one'', ''a.two'', ''a.three'']"
  by (simp add: fetch_tool_rows_def example_db_def example_tool_def is_action_def)

section \<open>Missing data\<close>

lemma encode_blob_None: "encode_blob PyNone = Inr None"
  by (simp add: encode_blob_def)

lemma encode_blob_None_result: "encode_blob v = Inr s \<Longrightarrow> v = PyNone \<Longrightarrow> s = None"
  by (simp add: encode_blob_None)

lemma argument_record_more:
  assumes "argument_record ploc p = Inr a"
  shows "arg_description a =
           (case ploc (param_toolId p, param_key p) of None \<Rightarrow> None | Some l \<Rightarrow> pl_description l)"
    and "arg_flags a = param_flags p"
    and "encode_blob (param_relationships p) = Inr (arg_relationships a)"
    and "encode_blob (param_typeInstance p) = Inr (arg_typeInstance a)"
  using assms by (auto simp add: argument_record_def Let_def split: sum.splits)

lemma tool_record_more:
  assumes "tool_record tloc pbt t = Inr r"
  shows "out_description r =
           (case tloc (tool_rowId t) of None \<Rightarrow> None | Some l \<Rightarrow> tl_descriptionSummary l)"
    and "encode_blob (tool_requirements t) = Inr (out_requirements r)"
    and "encode_blob (tool_outputTypeInstance t) = Inr (out_outputTypeInstance r)"
    and "encode_blob (tool_customIcon t) = Inr (out_customIcon r)"
  using assms by (auto simp add: tool_record_def Let_def split: sum.splits)

lemma argument_record_degrades:
  assumes "argument_record ploc p = Inr a"
  shows "arg_key a = param_key p
     \<and> (ploc (param_toolId p, param_key p) = None \<longrightarrow>
          arg_name a = param_key p \<and> arg_description a = None)
     \<and> (\<forall>l. ploc (param_toolId p, param_key p) = Some l \<and> pl_name l = None \<longrightarrow>
              arg_name a = param_key p)
     \<and> (\<forall>l. ploc (param_toolId p, param_key p) = Some l \<and> pl_description l = None \<longrightarrow>
              arg_description a = None)
     \<and> (param_relationships p = PyNone \<longrightarrow> arg_relationships a = None)
     \<and> (param_typeInstance p = PyNone \<longrightarrow> arg_typeInstance a = None)
     \<and> (param_typeId p = None \<longrightarrow> type_rowId (arg_type a) = None)
     \<and> (param_typeKind p = PyNone \<longrightarrow> type_kind (arg_type a) = PyNone)
     \<and> (param_typeRuntimeFlags p = PyNone \<longrightarrow> type_runtimeFlags (arg_type a) = PyNone)
     \<and> (param_typeRuntimeRequirements p = PyNone \<longrightarrow>
          type_runtimeRequirements (arg_type a) = None)
     \<and> (param_typeIdentifier p = PyNone \<longrightarrow> type_encodedId (arg_type a) = None)"
proof -
  note f = argument_record_fields [OF assms] and m = argument_record_more [OF assms]
  have "arg_key a = param_key p" by (rule f(1))
  moreover have "ploc (param_toolId p, param_key p) = None \<longrightarrow>
      arg_name a = param_key p \<and> arg_description a = None"
    by (simp add: f(3) m(1) py_or_def)
  moreover have "\<forall>l. ploc (param_toolId p, param_key p) = Some l \<and> pl_name l = None \<longrightarrow>
      arg_name a = param_key p"
    by (simp add: f(3) py_or_def)
  moreover have "\<forall>l. ploc (param_toolId p, param_key p) = Some l \<and> pl_description l = None \<longrightarrow>
      arg_description a = None"
    by (simp add: m(1))
  moreover have "param_relationships p = PyNone \<longrightarrow> arg_relationships a = None"
    using encode_blob_None_result [OF m(3)] by blast
  moreover have "param_typeInstance p = PyNone \<longrightarrow> arg_typeInstance a = None"
    using encode_blob_None_result [OF m(4)] by blast
  moreover have "param_typeId p = None \<longrightarrow> type_rowId (arg_type a) = None"
    by (simp add: f(4))
  moreover have "param_typeKind p = PyNone \<longrightarrow> type_kind (arg_type a) = PyNone"
    by (simp add: f(5))
  moreover have "param_typeRuntimeFlags p = PyNone \<longrightarrow> type_runtimeFlags (arg_type a) = PyNone"
    by (simp add: f(6))
  moreover have "param_typeRuntimeRequirements p = PyNone \<longrightarrow>
      type_runtimeRequirements (arg_type a) = None"
    using encode_blob_None_result [OF f(7)] by blast
  moreover have "param_typeIdentifier p = PyNone \<longrightarrow> type_encodedId (arg_type a) = None"
    using encode_blob_None_result [OF f(8)] by blast
  ultimately show ?thesis by (intro conjI)
qed

lemma tool_record_degrades:
  assumes "tool_record tloc pbt t = Inr r"
  shows "out_rowId r = tool_rowId t
     \<and> (tloc (tool_rowId t) = None \<longrightarrow> out_name r = tool_id t \<and> out_description r = None)
     \<and> (\<forall>l. tloc (tool_rowId t) = Some l \<and> tl_name l = None \<longrightarrow> out_name r = tool_id t)
     \<and> (\<forall>l. tloc (tool_rowId t) = Some l \<and> tl_descriptionSummary l = None \<longrightarrow>
              out_description r = None)
     \<and> (tool_requirements t = PyNone \<longrightarrow> out_requirements r = None)
     \<and> (tool_outputTypeInstance t = PyNone \<longrightarrow> out_outputTypeInstance r = None)
     \<and> (tool_customIcon t = PyNone \<longrightarrow> out_customIcon r = None)"
proof -
  note f = tool_record_fields [OF assms] and m = tool_record_more [OF assms]
  have "out_rowId r = tool_rowId t" by (rule f(1))
  moreover have "tloc (tool_rowId t) = None \<longrightarrow> out_name r = tool_id t \<and> out_description r = None"
    by (simp add: f(2) m(1) py_or_def)
  moreover have "\<forall>l. tloc (tool_rowId t) = Some l \<and> tl_name l = None \<longrightarrow> out_name r = tool_id t"
    by (simp add: f(2) py_or_def)
  moreover have "\<forall>l. tloc (tool_rowId t) = Some l \<and> tl_descriptionSummary l = None \<longrightarrow>
      out_description r = None"
    by (simp add: m(1))
  moreover have "tool_requirements t = PyNone \<longrightarrow> out_requirements r = None"
    using encode_blob_None_result [OF m(2)] by blast
  moreover have "tool_outputTypeInstance t = PyNone \<longrightarrow> out_outputTypeInstance r = None"
    using encode_blob_None_result [OF m(3)] by blast
  moreover have "tool_customIcon t = PyNone \<longrightarrow> out_customIcon r = None"
    using encode_blob_None_result [OF m(4)] by blast
  ultimately show ?thesis by (intro conjI)
qed

section \<open>The bare example and the paths, run\<close>

lemma example_bare_argument_p:
  "argument_record example_bare_parameter_localizations (example_bare_param 3 ''p'')
     = Inr (example_bare_argument ''p'')"
  by (simp add: argument_record_def example_bare_param_def example_bare_argument_def
      null_type_def example_bare_parameter_localizations_def py_or_def encode_blob_None)

lemma example_bare_argument_q:
  "argument_record example_bare_parameter_localizations (example_bare_param 3 ''q'')
     = Inr (example_bare_argument ''q'')"
  by (simp add: argument_record_def example_bare_param_def example_bare_argument_def
      null_type_def example_bare_parameter_localizations_def example_pl_def py_or_def
      encode_blob_None)

lemma example_bare_param_toolId: "param_toolId (example_bare_param rid k) = rid"
  by (simp add: example_bare_param_def)

lemma example_bare_tool_localizations_lookup:
  "example_bare_tool_localizations 2 = Some (example_tl 2 ''en'' None)"
  "example_bare_tool_localizations 3 = None"
  by (simp_all add: example_bare_tool_localizations_def)

lemma example_bare_tool_record:
  "tool_record example_bare_tool_localizations pbt (example_tool rid ident ''action'')
     = Inr (example_object rid
              (py_or (case example_bare_tool_localizations rid of None \<Rightarrow> None
                      | Some l \<Rightarrow> tl_name l) ident)
              (get_list pbt rid))"
  by (simp add: tool_record_def example_tool_def example_object_def encode_blob_None
      example_bare_tool_localizations_def example_tl_def)

lemma example_bare_build:
  "build_payload example_bare_tools example_bare_tool_localizations
     example_bare_parameter_localizations example_bare_parameters = Inr example_bare_compiled"
  by (simp add: build_payload_def example_bare_parameters_def example_bare_tools_def
      example_bare_argument_p example_bare_argument_q example_bare_param_toolId
      example_bare_tool_record get_list_def py_or_def
      example_bare_tool_localizations_lookup example_tool_id example_tl_def
      example_bare_compiled_def example_bare_two_def example_bare_three_def)

lemma example_bare_compiled_lookup:
  "example_bare_compiled ''a.two'' = Some example_bare_two"
  "example_bare_compiled ''a.three'' = Some example_bare_three"
  by (simp_all add: example_bare_compiled_def)

lemma example_paths:
  "path_str ''./data//raw.sqlite'' = ''data/raw.sqlite''"
  "path_str ''out/compiled.json'' = ''out/compiled.json''"
  "path_parent ''out/compiled.json'' = ''out''"
  "path_parent ''compiled.json'' = ''.''"
  "path_str [] = ''.''"
  "path_str ''//srv/x/'' = ''//srv/x''"
  "path_str ''///srv/../x'' = ''/srv/../x''"
  by (simp_all add: path_str_def path_parent_def format_path_def path_root_def path_parts_def)

section \<open>The other ways \<^verbatim>\<open>main\<close> ends\<close>

lemma main_database_not_found:
  assumes "w_store w (path_str (opt_db args)) = None"
  shows "main args w = (Inl (SystemExit (''Database not found: '' @ path_str (opt_db args))), w)"
  using assms by (simp add: main_def)

lemma main_builder_error:
  assumes "w_store w (path_str (opt_db args)) = Some db" and "fetch_tool_rows db \<noteq> []"
    and "build_payload (fetch_tool_rows db)
           (fetch_tool_localizations db (opt_locale args) (Some (opt_fallback_locale args)))
           (fetch_parameter_localizations db (opt_locale args) (Some (opt_fallback_locale args)))
           (fetch_parameters db) = Inl e"
  shows "main args w =
           (Inl e, emit [Connect (path_str (opt_db args)), Close (path_str (opt_db args))] w)"
  using assms by (simp add: main_def emit_def Let_def)

lemma main_after_build:
  assumes "w_store w (path_str (opt_db args)) = Some db" and "fetch_tool_rows db \<noteq> []"
    and "build_payload (fetch_tool_rows db)
           (fetch_tool_localizations db (opt_locale args) (Some (opt_fallback_locale args)))
           (fetch_parameter_localizations db (opt_locale args) (Some (opt_fallback_locale args)))
           (fetch_parameters db) = Inr compiled"
  shows "json_dumps_ok (fetch_tool_rows db) compiled \<Longrightarrow>
           fst (main args w) = Inr ()
           \<and> filter is_output_event (w_events (snd (main args w)))
               = filter is_output_event (w_events w)
                 @ [Mkdir_parents (path_parent (opt_output args)),
                    Write_text (path_str (opt_output args))
                      \<lparr> doc_metadata =
                          \<lparr> meta_generatedAt = w_now w,
                            meta_locale = opt_locale args,
                            meta_fallbackLocale = opt_fallback_locale args,
                            meta_sourceDatabase = path_str (opt_db args),
                            meta_actionCount = card (dom compiled) \<rparr>,
                        doc_actions = compiled \<rparr>]"
    and "\<not> json_dumps_ok (fetch_tool_rows db) compiled \<Longrightarrow>
           fst (main args w) = Inl TypeError
           \<and> filter is_output_event (w_events (snd (main args w)))
               = filter is_output_event (w_events w)
                 @ [Mkdir_parents (path_parent (opt_output args))]"
  using assms by (simp_all add: main_def emit_def Let_def)

section \<open>Claims\<close>

text \<open>
  C1. Locale resolution, for the tool-level and the parameter-level map alike. The rows
  are those the localization query returns for a locale. A key with a row in the primary
  locale \<open>L\<close> maps to a primary-locale row of that key, whatever the fallback holds. A key
  with no row in \<open>L\<close> but a row in the fallback locale \<open>f\<close> maps to a fallback row of that
  key, provided \<open>f\<close> is given, is not the empty string and differs from \<open>L\<close>. A key with a
  row in neither locale, or with no row in \<open>L\<close> while the fallback is absent, empty or equal
  to \<open>L\<close>, is not in the map.
\<close>

theorem locale_resolution:
  "((\<exists>r\<in>set (tool_localization_query db L). tl_toolId r = k) \<longrightarrow>
      (\<exists>r\<in>set (tool_localization_query db L).
         tl_toolId r = k \<and> fetch_tool_localizations db L F k = Some r))
   \<and> ((\<forall>r\<in>set (tool_localization_query db L). tl_toolId r \<noteq> k) \<and> f \<noteq> [] \<and> f \<noteq> L
        \<and> (\<exists>r\<in>set (tool_localization_query db f). tl_toolId r = k) \<longrightarrow>
      (\<exists>r\<in>set (tool_localization_query db f).
         tl_toolId r = k \<and> fetch_tool_localizations db L (Some f) k = Some r))
   \<and> ((\<forall>r\<in>set (tool_localization_query db L). tl_toolId r \<noteq> k)
        \<and> (F = None \<or> F = Some [] \<or> F = Some L
             \<or> (\<exists>g. F = Some g \<and> (\<forall>r\<in>set (tool_localization_query db g). tl_toolId r \<noteq> k))) \<longrightarrow>
      fetch_tool_localizations db L F k = None)
   \<and> ((\<exists>r\<in>set (parameter_localization_query db L). (pl_toolId r, pl_key r) = kp) \<longrightarrow>
      (\<exists>r\<in>set (parameter_localization_query db L).
         (pl_toolId r, pl_key r) = kp \<and> fetch_parameter_localizations db L F kp = Some r))
   \<and> ((\<forall>r\<in>set (parameter_localization_query db L). (pl_toolId r, pl_key r) \<noteq> kp)
        \<and> f \<noteq> [] \<and> f \<noteq> L
        \<and> (\<exists>r\<in>set (parameter_localization_query db f). (pl_toolId r, pl_key r) = kp) \<longrightarrow>
      (\<exists>r\<in>set (parameter_localization_query db f).
         (pl_toolId r, pl_key r) = kp \<and> fetch_parameter_localizations db L (Some f) kp = Some r))
   \<and> ((\<forall>r\<in>set (parameter_localization_query db L). (pl_toolId r, pl_key r) \<noteq> kp)
        \<and> (F = None \<or> F = Some [] \<or> F = Some L
             \<or> (\<exists>g. F = Some g
                  \<and> (\<forall>r\<in>set (parameter_localization_query db g). (pl_toolId r, pl_key r) \<noteq> kp))) \<longrightarrow>
      fetch_parameter_localizations db L F kp = None)"
  unfolding fetch_tool_localizations_def fetch_parameter_localizations_def
  by (intro conjI impI resolve_locale_primary resolve_locale_fallback resolve_locale_absent;
      blast)

theorem locale_resolution_witness:
  "tool_localization_query example_db ''fr'' = [example_tl 1 ''fr'' (Some ''Un'')]
   \<and> tool_localization_query example_db ''en''
       = [example_tl 1 ''en'' (Some ''One''), example_tl 2 ''en'' (Some ''Two'')]
   \<and> fetch_tool_localizations example_db ''fr'' (Some ''en'') 1 = Some (example_tl 1 ''fr'' (Some ''Un''))
   \<and> fetch_tool_localizations example_db ''fr'' (Some ''en'') 2 = Some (example_tl 2 ''en'' (Some ''Two''))
   \<and> fetch_tool_localizations example_db ''fr'' (Some ''en'') 3 = None
   \<and> fetch_parameter_localizations example_db ''fr'' (Some ''en'') (1, ''x'')
       = Some (example_pl 1 ''x'' ''fr'' (Some ''ix''))
   \<and> fetch_parameter_localizations example_db ''fr'' (Some ''en'') (2, ''y'')
       = Some (example_pl 2 ''y'' ''en'' (Some ''why''))
   \<and> fetch_parameter_localizations example_db ''fr'' (Some ''en'') (3, ''z'') = None"
  using locale_resolution [of example_db "''fr''" 1 "Some ''en''" "''en''" "(1, ''x'')"]
    locale_resolution [of example_db "''fr''" 2 "Some ''en''" "''en''" "(2, ''y'')"]
    locale_resolution [of example_db "''fr''" 3 "Some ''en''" "''en''" "(3, ''z'')"]
  by (simp add: tool_localization_query_def parameter_localization_query_def action_rowIds_def
      is_action_def example_db_def example_tool_def example_tl_def example_pl_def)

text \<open>
  Without the condition that the fallback locale is a non-empty string the second part
  fails: with primary locale \<^verbatim>\<open>en\<close> and the empty string as fallback, tool 3 has no
  \<^verbatim>\<open>en\<close> row and a row under the empty locale, yet the guard
  \<^verbatim>\<open>if fallback_locale and fallback_locale != locale\<close> skips the fallback pass and the key
  stays absent.
\<close>

theorem locale_resolution_counterexample:
  "filter (\<lambda>r. tl_toolId r = 3) (tool_localization_query example_db ''en'') = []
   \<and> filter (\<lambda>r. tl_toolId r = 3) (tool_localization_query example_db [])
       = [example_tl 3 [] (Some ''Three'')]
   \<and> Some [] \<noteq> (None :: string option) \<and> [] \<noteq> ''en''
   \<and> fetch_tool_localizations example_db ''en'' (Some []) 3 = None"
  by (simp add: tool_localization_query_def action_rowIds_def is_action_def example_db_def
      example_tool_def example_tl_def fetch_tool_localizations_def resolve_locale_def)

text \<open>
  C2. Default-name substitution. Every tool record of the output carries as \<^verbatim>\<open>name\<close> the
  name of the localization resolved for its row identifier when that name is neither NULL
  nor the empty string, and the public identifier it is stored under when no localization
  was resolved or the resolved name is NULL or empty. Every argument record carries the
  name of the localization resolved for (row identifier, key) under the same rule, with
  the parameter's key as the default.
\<close>

theorem default_name_substitution:
  assumes "build_payload tools tloc ploc params = Inr out" and "out k = Some r"
  shows "(tloc (out_rowId r) = None \<longrightarrow> out_name r = k)
    \<and> (\<forall>l. tloc (out_rowId r) = Some l \<longrightarrow>
          (tl_name l = None \<or> tl_name l = Some [] \<longrightarrow> out_name r = k)
          \<and> (\<forall>n. tl_name l = Some n \<and> n \<noteq> [] \<longrightarrow> out_name r = n))
    \<and> (\<forall>a\<in>set (out_arguments r).
          (ploc (out_rowId r, arg_key a) = None \<longrightarrow> arg_name a = arg_key a)
          \<and> (\<forall>l. ploc (out_rowId r, arg_key a) = Some l \<longrightarrow>
                (pl_name l = None \<or> pl_name l = Some [] \<longrightarrow> arg_name a = arg_key a)
                \<and> (\<forall>n. pl_name l = Some n \<and> n \<noteq> [] \<longrightarrow> arg_name a = n)))"
proof -
  have tool: "out_name r =
      py_or (case tloc (out_rowId r) of None \<Rightarrow> None | Some l \<Rightarrow> tl_name l) k"
    by (rule build_payload_output(2) [OF assms])
  have arg: "arg_name a =
      py_or (case ploc (out_rowId r, arg_key a) of None \<Rightarrow> None | Some l \<Rightarrow> pl_name l) (arg_key a)"
    if "a \<in> set (out_arguments r)" for a
  proof -
    from build_payload_argument [OF assms that]
    obtain p where "param_toolId p = out_rowId r" and "argument_record ploc p = Inr a"
      by blast
    with argument_record_fields(1,3) [of ploc p a] show ?thesis by simp
  qed
  show ?thesis
    by (auto simp add: tool arg py_or_def)
qed

theorem default_name_substitution_witness:
  "build_payload example_tools example_tool_localizations example_parameter_localizations
     example_parameters = Inr example_compiled
   \<and> example_compiled ''a.one'' = Some example_one
   \<and> example_tool_localizations (out_rowId example_one) = Some (example_tl 1 ''en'' (Some ''One''))
   \<and> out_name example_one = ''One''
   \<and> example_parameter_localizations (out_rowId example_one, ''x'')
       = Some (example_pl 1 ''x'' ''en'' (Some ''ex''))
   \<and> arg_name (example_argument ''x'' ''ex'' 0) = ''ex''
   \<and> example_compiled ''a.three'' = Some example_three
   \<and> example_tool_localizations (out_rowId example_three) = None
   \<and> out_name example_three = ''a.three''
   \<and> example_parameter_localizations (out_rowId example_three, ''z'') = None
   \<and> arg_name (example_argument ''z'' ''z'' 0) = ''z''"
proof -
  from default_name_substitution [OF example_build example_compiled_lookup(1)]
  have one: "out_name example_one = ''One''" "arg_name (example_argument ''x'' ''ex'' 0) = ''ex''"
    by (simp_all add: example_rowIds example_arguments example_argument_keys
        example_tool_localizations_lookup example_parameter_localizations_lookup
        example_localization_names)
  from default_name_substitution [OF example_build example_compiled_lookup(3)]
  have three: "out_name example_three = ''a.three''"
    "arg_name (example_argument ''z'' ''z'' 0) = ''z''"
    by (simp_all add: example_rowIds example_arguments example_argument_keys
        example_tool_localizations_lookup example_parameter_localizations_lookup)
  show ?thesis
    by (simp add: example_build example_compiled_lookup example_rowIds one three
        example_tool_localizations_lookup example_parameter_localizations_lookup)
qed

text \<open>
  The rule "the public identifier exactly when the resolved name is NULL or no
  localization was resolved" fails for tool 2 of the example: its localization is
  resolved and its name is the empty string, not NULL, yet the output name is the public
  identifier and differs from the resolved name.
\<close>

theorem default_name_substitution_counterexample:
  "build_payload example_tools example_tool_localizations example_parameter_localizations
     example_parameters = Inr example_compiled
   \<and> example_compiled ''a.two'' = Some example_two
   \<and> example_tool_localizations (out_rowId example_two) = Some (example_tl 2 ''en'' (Some []))
   \<and> tl_name (example_tl 2 ''en'' (Some [])) \<noteq> None
   \<and> Some (out_name example_two) \<noteq> tl_name (example_tl 2 ''en'' (Some []))
   \<and> out_name example_two = ''a.two''"
proof -
  have "out_name example_two = ''a.two''"
    by (simp add: example_two_def example_object_def)
  then show ?thesis
    by (simp add: example_build example_compiled_lookup example_rowIds
        example_tool_localizations_lookup example_localization_names)
qed

text \<open>
  C3. Binary-safe encoding round trip: \<^verbatim>\<open>encode_blob(None)\<close> is \<^verbatim>\<open>None\<close>; the empty byte
  sequence encodes to the empty string; a non-empty byte sequence encodes to its base64
  text; and for every byte sequence \<open>b\<close>, the empty one included, base64-decoding
  \<^verbatim>\<open>encode_blob(b)\<close> gives back \<open>b\<close>.
\<close>

theorem encode_blob_roundtrip:
  "encode_blob PyNone = Inr None
   \<and> encode_blob (PyBytes []) = Inr (Some [])
   \<and> (b \<noteq> [] \<longrightarrow> encode_blob (PyBytes b) = Inr (Some (b64encode b)))
   \<and> (\<exists>s. encode_blob (PyBytes b) = Inr (Some s) \<and> b64decode s = Some b)"
proof -
  have "encode_blob PyNone = Inr None"
    by (simp add: encode_blob_def)
  moreover have "encode_blob (PyBytes []) = Inr (Some [])"
    by (simp add: encode_blob_def)
  moreover have "encode_blob (PyBytes b) = Inr (Some (b64encode b))"
    by (rule encode_blob_bytes)
  moreover have "b64decode (b64encode b) = Some b"
    by (rule b64decode_b64encode)
  ultimately show ?thesis by simp
qed

theorem encode_blob_roundtrip_witness:
  "[0x4d, 0x61 :: byte] \<noteq> []
   \<and> encode_blob (PyBytes [0x4d, 0x61]) = Inr (Some ''TWE='')
   \<and> b64decode ''TWE='' = Some [0x4d, 0x61]"
  using encode_blob_roundtrip [of "[0x4d, 0x61]"]
  by (simp add: sextet_char_def b64_index_def b64_alphabet_def)

text \<open>
  C4. Argument ordering. When the parameter rows arrive ordered by (owning tool, sort
  order, key), every tool record's \<^verbatim>\<open>arguments\<close> are ordered by sort order, ties
  broken by key; they are the records of the tool's rows in their input order.
\<close>

theorem argument_ordering:
  assumes "build_payload tools tloc ploc params = Inr out" and "out k = Some r"
    and "sorted_wrt parameter_le params"
  shows "sorted_wrt argument_le (out_arguments r)
    \<and> map (\<lambda>a. (arg_sortOrder a, arg_key a)) (out_arguments r)
        = map (\<lambda>p. (param_sortOrder p, param_key p))
            (filter (\<lambda>p. param_toolId p = out_rowId r) params)"
proof
  let ?ps = "filter (\<lambda>p. param_toolId p = out_rowId r) params"
  have l: "list_all2 (\<lambda>a p. argument_record ploc p = Inr a) (out_arguments r) ?ps"
    by (rule build_payload_output(3) [OF assms(1,2)])
  have s: "sorted_wrt parameter_le ?ps"
    using assms(3) by (rule sorted_wrt_filter)
  show "sorted_wrt argument_le (out_arguments r)"
  proof (rule sorted_wrt_list_all2 [OF l s])
    fix a p a' p'
    assume a: "argument_record ploc p = Inr a" and a': "argument_record ploc p' = Inr a'"
      and "p \<in> set ?ps" and "p' \<in> set ?ps" and "parameter_le p p'"
    then have "param_toolId p = param_toolId p'" and "parameter_le p p'"
      by simp_all
    then have "param_sortOrder p < param_sortOrder p'
        \<or> (param_sortOrder p = param_sortOrder p' \<and> param_key p \<le> param_key p')"
      unfolding parameter_le_def by (metis less_irrefl)
    then show "argument_le a a'"
      unfolding argument_le_def
        argument_record_fields(1,2) [OF a] argument_record_fields(1,2) [OF a'] .
  qed
  from l show "map (\<lambda>a. (arg_sortOrder a, arg_key a)) (out_arguments r)
        = map (\<lambda>p. (param_sortOrder p, param_key p)) ?ps"
  proof (induction rule: list_all2_induct)
    case Nil
    show ?case by simp
  next
    case (Cons a as p ps)
    from argument_record_fields(1,2) [OF Cons.hyps(1)] Cons.IH show ?case by simp
  qed
qed

theorem argument_ordering_witness:
  "build_payload example_tools example_tool_localizations example_parameter_localizations
     example_parameters = Inr example_compiled
   \<and> example_compiled ''a.one'' = Some example_one
   \<and> sorted_wrt parameter_le example_parameters
   \<and> sorted_wrt argument_le (out_arguments example_one)
   \<and> map (\<lambda>a. (arg_sortOrder a, arg_key a)) (out_arguments example_one) = [(0, ''x''), (1, ''y'')]"
proof -
  have s: "sorted_wrt parameter_le example_parameters"
    by (simp add: example_parameters_def example_param_def parameter_le_def)
  from argument_ordering [OF example_build example_compiled_lookup(1) s]
  have "sorted_wrt argument_le (out_arguments example_one)"
    and "map (\<lambda>a. (arg_sortOrder a, arg_key a)) (out_arguments example_one) = [(0, ''x''), (1, ''y'')]"
    by (simp_all add: example_rowIds example_owned example_param_def)
  with s show ?thesis
    by (simp add: example_build example_compiled_lookup)
qed

text \<open>
  C5. Grouping completeness. With distinct row identifiers and distinct public
  identifiers, every tool has a record under its public identifier whose \<^verbatim>\<open>arguments\<close>
  are, one for one and in order, the records of the parameter rows it owns; the list is
  empty (the field is present) when it owns none; and a row owned by the tool is not
  among the rows behind the list of any other tool, whose record stands under another
  identifier.
\<close>

theorem grouping_completeness:
  assumes "build_payload tools tloc ploc params = Inr out"
    and "distinct (map tool_rowId tools)" and "distinct (map tool_id tools)"
    and "t \<in> set tools"
  shows "\<exists>r. out (tool_id t) = Some r
    \<and> list_all2 (\<lambda>a p. argument_record ploc p = Inr a) (out_arguments r)
        (filter (\<lambda>p. param_toolId p = tool_rowId t) params)
    \<and> (filter (\<lambda>p. param_toolId p = tool_rowId t) params = [] \<longrightarrow> out_arguments r = [])
    \<and> (\<forall>t'\<in>set tools. t' \<noteq> t \<longrightarrow>
          tool_id t' \<noteq> tool_id t
          \<and> (\<forall>p\<in>set params. param_toolId p = tool_rowId t \<longrightarrow>
                p \<notin> set (filter (\<lambda>q. param_toolId q = tool_rowId t') params)))"
proof -
  from build_payload_tool [OF assms(1,3,4)]
  obtain r where r: "out (tool_id t) = Some r"
    and l: "list_all2 (\<lambda>a p. argument_record ploc p = Inr a) (out_arguments r)
              (filter (\<lambda>p. param_toolId p = tool_rowId t) params)"
    by blast
  have e: "filter (\<lambda>p. param_toolId p = tool_rowId t) params = [] \<longrightarrow> out_arguments r = []"
    using l by auto
  have x: "\<forall>t'\<in>set tools. t' \<noteq> t \<longrightarrow>
          tool_id t' \<noteq> tool_id t
          \<and> (\<forall>p\<in>set params. param_toolId p = tool_rowId t \<longrightarrow>
                p \<notin> set (filter (\<lambda>q. param_toolId q = tool_rowId t') params))"
  proof (intro ballI impI conjI)
    fix t' assume t': "t' \<in> set tools" "t' \<noteq> t"
    from distinct_map_neq [OF assms(3) t'(1) assms(4) t'(2)]
    show "tool_id t' \<noteq> tool_id t" .
    fix p :: parameter_row
    assume "param_toolId p = tool_rowId t"
    with distinct_map_neq [OF assms(2) t'(1) assms(4) t'(2)]
    show "p \<notin> set (filter (\<lambda>q. param_toolId q = tool_rowId t') params)"
      by simp
  qed
  show ?thesis
    by (intro exI [of _ r] conjI r l e x)
qed

theorem grouping_completeness_witness:
  "build_payload example_tools example_tool_localizations example_parameter_localizations
     example_parameters = Inr example_compiled
   \<and> distinct (map tool_rowId example_tools) \<and> distinct (map tool_id example_tools)
   \<and> example_tool 1 ''a.one'' ''action'' \<in> set example_tools
   \<and> example_compiled ''a.one'' = Some example_one
   \<and> filter (\<lambda>p. param_toolId p = 1) example_parameters
       = [example_param 1 ''x'' 0, example_param 1 ''y'' 1]
   \<and> length (out_arguments example_one) = 2
   \<and> example_tool 2 ''a.two'' ''action'' \<in> set example_tools
   \<and> example_compiled ''a.two'' = Some example_two
   \<and> filter (\<lambda>p. param_toolId p = 2) example_parameters = []
   \<and> out_arguments example_two = []"
proof -
  have d: "distinct (map tool_rowId example_tools)" "distinct (map tool_id example_tools)"
    by (simp_all add: example_tools_def example_tool_def)
  have m: "example_tool 1 ''a.one'' ''action'' \<in> set example_tools"
    "example_tool 2 ''a.two'' ''action'' \<in> set example_tools"
    by (simp_all add: example_tools_def)
  from grouping_completeness [OF example_build d m(1)]
  have one: "length (out_arguments example_one) = 2"
    by (auto simp add: example_tool_def example_compiled_lookup example_owned
        dest: list_all2_lengthD)
  from grouping_completeness [OF example_build d m(2)]
  have two: "out_arguments example_two = []"
    by (auto simp add: example_tool_def example_compiled_lookup example_owned)
  show ?thesis
    by (simp add: example_build d m one two example_compiled_lookup example_owned)
qed

text \<open>
  C6. Type absence. In every tool record, the argument record of a parameter row with a
  NULL type reference and NULL joined type columns has a \<^verbatim>\<open>type\<close> object whose
  \<^verbatim>\<open>rowId\<close>, \<^verbatim>\<open>kind\<close>, \<^verbatim>\<open>runtimeFlags\<close>, \<^verbatim>\<open>runtimeRequirements\<close> and \<^verbatim>\<open>encodedId\<close> are
  all null.
\<close>

theorem type_absence:
  assumes "build_payload tools tloc ploc params = Inr out" and "out k = Some r"
  shows "list_all2
           (\<lambda>a p. param_typeId p = None \<and> param_typeIdentifier p = PyNone
                  \<and> param_typeKind p = PyNone \<and> param_typeRuntimeFlags p = PyNone
                  \<and> param_typeRuntimeRequirements p = PyNone \<longrightarrow>
                  type_rowId (arg_type a) = None \<and> type_kind (arg_type a) = PyNone
                  \<and> type_runtimeFlags (arg_type a) = PyNone
                  \<and> type_runtimeRequirements (arg_type a) = None
                  \<and> type_encodedId (arg_type a) = None)
           (out_arguments r) (filter (\<lambda>p. param_toolId p = out_rowId r) params)"
proof (rule list_all2_mono [OF build_payload_output(3) [OF assms]])
  fix a p
  assume a: "argument_record ploc p = Inr a"
  show "param_typeId p = None \<and> param_typeIdentifier p = PyNone
          \<and> param_typeKind p = PyNone \<and> param_typeRuntimeFlags p = PyNone
          \<and> param_typeRuntimeRequirements p = PyNone \<longrightarrow>
        type_rowId (arg_type a) = None \<and> type_kind (arg_type a) = PyNone
          \<and> type_runtimeFlags (arg_type a) = PyNone
          \<and> type_runtimeRequirements (arg_type a) = None
          \<and> type_encodedId (arg_type a) = None"
    using argument_record_fields(4,5,6) [OF a] argument_record_no_type [OF a]
    by simp
qed

theorem type_absence_witness:
  "build_payload example_tools example_tool_localizations example_parameter_localizations
     example_parameters = Inr example_compiled
   \<and> example_compiled ''a.three'' = Some example_three
   \<and> filter (\<lambda>p. param_toolId p = out_rowId example_three) example_parameters
       = [example_param 3 ''z'' 0]
   \<and> param_typeId (example_param 3 ''z'' 0) = None
   \<and> param_typeIdentifier (example_param 3 ''z'' 0) = PyNone
   \<and> param_typeKind (example_param 3 ''z'' 0) = PyNone
   \<and> param_typeRuntimeFlags (example_param 3 ''z'' 0) = PyNone
   \<and> param_typeRuntimeRequirements (example_param 3 ''z'' 0) = PyNone
   \<and> type_rowId (arg_type (example_argument ''z'' ''z'' 0)) = None
   \<and> type_kind (arg_type (example_argument ''z'' ''z'' 0)) = PyNone
   \<and> type_runtimeFlags (arg_type (example_argument ''z'' ''z'' 0)) = PyNone
   \<and> type_runtimeRequirements (arg_type (example_argument ''z'' ''z'' 0)) = None
   \<and> type_encodedId (arg_type (example_argument ''z'' ''z'' 0)) = None"
proof -
  have p: "param_typeId (example_param 3 ''z'' 0) = None"
    "param_typeIdentifier (example_param 3 ''z'' 0) = PyNone"
    "param_typeKind (example_param 3 ''z'' 0) = PyNone"
    "param_typeRuntimeFlags (example_param 3 ''z'' 0) = PyNone"
    "param_typeRuntimeRequirements (example_param 3 ''z'' 0) = PyNone"
    by (simp_all add: example_param_def)
  from type_absence [OF example_build example_compiled_lookup(3)]
  have "type_rowId (arg_type (example_argument ''z'' ''z'' 0)) = None
   \<and> type_kind (arg_type (example_argument ''z'' ''z'' 0)) = PyNone
   \<and> type_runtimeFlags (arg_type (example_argument ''z'' ''z'' 0)) = PyNone
   \<and> type_runtimeRequirements (arg_type (example_argument ''z'' ''z'' 0)) = None
   \<and> type_encodedId (arg_type (example_argument ''z'' ''z'' 0)) = None"
    by (simp add: example_rowIds example_arguments example_owned p)
  with p show ?thesis
    by (simp add: example_build example_compiled_lookup example_rowIds example_owned)
qed

text \<open>
  C7. Builder totality. When the blob-typed columns of every parameter row and of every
  tool row hold a byte sequence or NULL, \<^verbatim>\<open>build_payload\<close> returns a result, whatever
  the localization maps hold, with a record for every tool's public identifier and for
  nothing else. Every record is that of a tool with its public identifier, and what is
  missing degrades as follows. With no localization, or one whose name is NULL, the name
  is the public identifier; with no localization, or one whose summary is NULL, the
  description is null; a NULL blob encodes to null. The arguments are, one for one, those
  of the tool's parameter rows: with no localization or a NULL name the name is the key,
  with no localization or a NULL description the description is null, a NULL blob
  encodes to null, and each NULL type column gives a null field of the type object.
\<close>

theorem builder_totality:
  assumes "\<forall>p\<in>set params. well_formed_parameter p" and "\<forall>t\<in>set tools. well_formed_tool t"
  shows "\<exists>out. build_payload tools tloc ploc params = Inr out \<and> dom out = tool_id ` set tools
    \<and> (\<forall>k r. out k = Some r \<longrightarrow>
          (\<exists>t\<in>set tools. tool_id t = k
             \<and> (out_rowId r = tool_rowId t
                \<and> (tloc (tool_rowId t) = None \<longrightarrow> out_name r = tool_id t \<and> out_description r = None)
                \<and> (\<forall>l. tloc (tool_rowId t) = Some l \<and> tl_name l = None \<longrightarrow> out_name r = tool_id t)
                \<and> (\<forall>l. tloc (tool_rowId t) = Some l \<and> tl_descriptionSummary l = None \<longrightarrow>
                         out_description r = None)
                \<and> (tool_requirements t = PyNone \<longrightarrow> out_requirements r = None)
                \<and> (tool_outputTypeInstance t = PyNone \<longrightarrow> out_outputTypeInstance r = None)
                \<and> (tool_customIcon t = PyNone \<longrightarrow> out_customIcon r = None))
             \<and> list_all2
                 (\<lambda>a p. arg_key a = param_key p
                   \<and> (ploc (param_toolId p, param_key p) = None \<longrightarrow>
                        arg_name a = param_key p \<and> arg_description a = None)
                   \<and> (\<forall>l. ploc (param_toolId p, param_key p) = Some l \<and> pl_name l = None \<longrightarrow>
                            arg_name a = param_key p)
                   \<and> (\<forall>l. ploc (param_toolId p, param_key p) = Some l \<and> pl_description l = None \<longrightarrow>
                            arg_description a = None)
                   \<and> (param_relationships p = PyNone \<longrightarrow> arg_relationships a = None)
                   \<and> (param_typeInstance p = PyNone \<longrightarrow> arg_typeInstance a = None)
                   \<and> (param_typeId p = None \<longrightarrow> type_rowId (arg_type a) = None)
                   \<and> (param_typeKind p = PyNone \<longrightarrow> type_kind (arg_type a) = PyNone)
                   \<and> (param_typeRuntimeFlags p = PyNone \<longrightarrow> type_runtimeFlags (arg_type a) = PyNone)
                   \<and> (param_typeRuntimeRequirements p = PyNone \<longrightarrow>
                        type_runtimeRequirements (arg_type a) = None)
                   \<and> (param_typeIdentifier p = PyNone \<longrightarrow> type_encodedId (arg_type a) = None))
                 (out_arguments r) (filter (\<lambda>p. param_toolId p = tool_rowId t) params)))"
proof -
  from assms(1) have "\<forall>p\<in>set params. \<exists>a. argument_record ploc p = Inr a"
    by (simp add: argument_record_total)
  from group_parameters_total [OF this]
  obtain pbt where g: "group_parameters ploc params Map.empty = Inr pbt" by blast
  from assms(2) have "\<forall>t\<in>set tools. \<exists>r. tool_record tloc pbt t = Inr r"
    by (simp add: tool_record_total)
  from compile_tools_total [OF this]
  obtain out where c: "compile_tools tloc pbt tools Map.empty = Inr out" by blast
  from g c have b: "build_payload tools tloc ploc params = Inr out"
    by (simp add: build_payload_def)
  from compile_tools_dom [OF c] have d: "dom out = tool_id ` set tools" by simp
  have "\<exists>t\<in>set tools. tool_id t = k
             \<and> (out_rowId r = tool_rowId t
                \<and> (tloc (tool_rowId t) = None \<longrightarrow> out_name r = tool_id t \<and> out_description r = None)
                \<and> (\<forall>l. tloc (tool_rowId t) = Some l \<and> tl_name l = None \<longrightarrow> out_name r = tool_id t)
                \<and> (\<forall>l. tloc (tool_rowId t) = Some l \<and> tl_descriptionSummary l = None \<longrightarrow>
                         out_description r = None)
                \<and> (tool_requirements t = PyNone \<longrightarrow> out_requirements r = None)
                \<and> (tool_outputTypeInstance t = PyNone \<longrightarrow> out_outputTypeInstance r = None)
                \<and> (tool_customIcon t = PyNone \<longrightarrow> out_customIcon r = None))
             \<and> list_all2
                 (\<lambda>a p. arg_key a = param_key p
                   \<and> (ploc (param_toolId p, param_key p) = None \<longrightarrow>
                        arg_name a = param_key p \<and> arg_description a = None)
                   \<and> (\<forall>l. ploc (param_toolId p, param_key p) = Some l \<and> pl_name l = None \<longrightarrow>
                            arg_name a = param_key p)
                   \<and> (\<forall>l. ploc (param_toolId p, param_key p) = Some l \<and> pl_description l = None \<longrightarrow>
                            arg_description a = None)
                   \<and> (param_relationships p = PyNone \<longrightarrow> arg_relationships a = None)
                   \<and> (param_typeInstance p = PyNone \<longrightarrow> arg_typeInstance a = None)
                   \<and> (param_typeId p = None \<longrightarrow> type_rowId (arg_type a) = None)
                   \<and> (param_typeKind p = PyNone \<longrightarrow> type_kind (arg_type a) = PyNone)
                   \<and> (param_typeRuntimeFlags p = PyNone \<longrightarrow> type_runtimeFlags (arg_type a) = PyNone)
                   \<and> (param_typeRuntimeRequirements p = PyNone \<longrightarrow>
                        type_runtimeRequirements (arg_type a) = None)
                   \<and> (param_typeIdentifier p = PyNone \<longrightarrow> type_encodedId (arg_type a) = None))
                 (out_arguments r) (filter (\<lambda>p. param_toolId p = tool_rowId t) params)"
    if o: "out k = Some r" for k r
  proof -
    from build_payload_record [OF b o]
    obtain t pbt' where t: "t \<in> set tools" and k: "tool_id t = k"
      and r: "tool_record tloc pbt' t = Inr r"
      and l: "list_all2 (\<lambda>a p. argument_record ploc p = Inr a) (out_arguments r)
                (filter (\<lambda>p. param_toolId p = tool_rowId t) params)"
      by blast
    note tool = tool_record_degrades [OF r]
    have args: "list_all2
                 (\<lambda>a p. arg_key a = param_key p
                   \<and> (ploc (param_toolId p, param_key p) = None \<longrightarrow>
                        arg_name a = param_key p \<and> arg_description a = None)
                   \<and> (\<forall>l. ploc (param_toolId p, param_key p) = Some l \<and> pl_name l = None \<longrightarrow>
                            arg_name a = param_key p)
                   \<and> (\<forall>l. ploc (param_toolId p, param_key p) = Some l \<and> pl_description l = None \<longrightarrow>
                            arg_description a = None)
                   \<and> (param_relationships p = PyNone \<longrightarrow> arg_relationships a = None)
                   \<and> (param_typeInstance p = PyNone \<longrightarrow> arg_typeInstance a = None)
                   \<and> (param_typeId p = None \<longrightarrow> type_rowId (arg_type a) = None)
                   \<and> (param_typeKind p = PyNone \<longrightarrow> type_kind (arg_type a) = PyNone)
                   \<and> (param_typeRuntimeFlags p = PyNone \<longrightarrow> type_runtimeFlags (arg_type a) = PyNone)
                   \<and> (param_typeRuntimeRequirements p = PyNone \<longrightarrow>
                        type_runtimeRequirements (arg_type a) = None)
                   \<and> (param_typeIdentifier p = PyNone \<longrightarrow> type_encodedId (arg_type a) = None))
                 (out_arguments r) (filter (\<lambda>p. param_toolId p = tool_rowId t) params)"
      by (rule list_all2_mono [OF l]) (rule argument_record_degrades)
    show ?thesis
      by (rule bexI [OF _ t]) (intro conjI k tool args)
  qed
  with b d show ?thesis by blast
qed

theorem builder_totality_witness:
  "list_all well_formed_parameter example_bare_parameters
   \<and> list_all well_formed_tool example_bare_tools
   \<and> build_payload example_bare_tools example_bare_tool_localizations
       example_bare_parameter_localizations example_bare_parameters = Inr example_bare_compiled
   \<and> dom example_bare_compiled = {''a.two'', ''a.three''}
   \<and> example_bare_compiled ''a.two'' = Some example_bare_two
   \<and> out_name example_bare_two = ''a.two'' \<and> out_description example_bare_two = None
   \<and> out_arguments example_bare_two = []
   \<and> example_bare_compiled ''a.three'' = Some example_bare_three
   \<and> out_name example_bare_three = ''a.three'' \<and> out_description example_bare_three = None
   \<and> out_requirements example_bare_three = None
   \<and> out_outputTypeInstance example_bare_three = None
   \<and> out_customIcon example_bare_three = None
   \<and> map arg_name (out_arguments example_bare_three) = [''p'', ''q'']
   \<and> map arg_description (out_arguments example_bare_three) = [None, None]
   \<and> map arg_relationships (out_arguments example_bare_three) = [None, None]
   \<and> map arg_typeInstance (out_arguments example_bare_three) = [None, None]
   \<and> map arg_type (out_arguments example_bare_three) = [null_type, null_type]"
proof -
  have p: "list_all well_formed_parameter example_bare_parameters"
    by (simp add: example_bare_parameters_def example_bare_param_def well_formed_parameter_def)
  have t: "list_all well_formed_tool example_bare_tools"
    by (simp add: example_bare_tools_def example_tool_def well_formed_tool_def)
  have i: "tool_id ` set example_bare_tools = {''a.two'', ''a.three''}"
    by (simp add: example_bare_tools_def example_tool_id)
  from builder_totality [OF p [unfolded list_all_iff] t [unfolded list_all_iff],
      of example_bare_tool_localizations example_bare_parameter_localizations]
  obtain out where o: "build_payload example_bare_tools example_bare_tool_localizations
       example_bare_parameter_localizations example_bare_parameters = Inr out"
    and d: "dom out = tool_id ` set example_bare_tools"
    by blast
  from o have "out = example_bare_compiled"
    by (simp add: example_bare_build)
  with d i have dom: "dom example_bare_compiled = {''a.two'', ''a.three''}"
    by simp
  have v: "out_name example_bare_two = ''a.two''" "out_description example_bare_two = None"
    "out_arguments example_bare_two = []"
    "out_name example_bare_three = ''a.three''" "out_description example_bare_three = None"
    "out_requirements example_bare_three = None"
    "out_outputTypeInstance example_bare_three = None"
    "out_customIcon example_bare_three = None"
    "map arg_name (out_arguments example_bare_three) = [''p'', ''q'']"
    "map arg_description (out_arguments example_bare_three) = [None, None]"
    "map arg_relationships (out_arguments example_bare_three) = [None, None]"
    "map arg_typeInstance (out_arguments example_bare_three) = [None, None]"
    "map arg_type (out_arguments example_bare_three) = [null_type, null_type]"
    by (simp_all add: example_bare_two_def example_bare_three_def example_object_def
        example_bare_argument_def)
  show ?thesis
    by (intro conjI p t example_bare_build dom example_bare_compiled_lookup v)
qed

text \<open>
  C8. Empty-result error. When the store exists and holds no action tool, \<^verbatim>\<open>main\<close> ends
  with \<^verbatim>\<open>SystemExit\<close> and the message "No action tools found in the database.", the exit
  status is not zero, and all it has done is open and close the connection: no directory
  is created and no file is written.
\<close>

theorem empty_result_error:
  assumes "w_store w (path_str (opt_db args)) = Some db" and "fetch_tool_rows db = []"
  shows "main args w =
           (Inl (SystemExit ''No action tools found in the database.''),
            emit [Connect (path_str (opt_db args)), Close (path_str (opt_db args))] w)
    \<and> exit_status (fst (main args w)) \<noteq> 0
    \<and> filter is_output_event (w_events (snd (main args w))) = filter is_output_event (w_events w)"
  using assms by (simp add: main_def emit_def Let_def)

theorem empty_result_error_witness:
  "w_store example_world (path_str (opt_db example_args)) = Some example_empty_db
   \<and> fetch_tool_rows example_empty_db = []
   \<and> main example_args example_world =
        (Inl (SystemExit ''No action tools found in the database.''),
         example_world\<lparr>w_events := [Connect ''data/raw.sqlite'', Close ''data/raw.sqlite'']\<rparr>)"
proof -
  have s: "w_store example_world (path_str (opt_db example_args)) = Some example_empty_db"
    by (simp add: example_world_def example_args_def example_paths)
  have e: "fetch_tool_rows example_empty_db = []"
    by (simp add: fetch_tool_rows_def example_empty_db_def example_tool_def is_action_def)
  from empty_result_error [OF s e]
  have "main example_args example_world =
        (Inl (SystemExit ''No action tools found in the database.''),
         example_world\<lparr>w_events := [Connect ''data/raw.sqlite'', Close ''data/raw.sqlite'']\<rparr>)"
    by (simp add: emit_def example_world_def example_args_def example_paths)
  with s e show ?thesis by blast
qed

text \<open>
  C9. Empty-string names are substituted too. A tool record whose resolved localization
  has the empty string as name carries the public identifier as \<^verbatim>\<open>name\<close>, and an
  argument record whose resolved localization has the empty string as name carries the
  parameter's key.
\<close>

theorem empty_name_substitution:
  assumes "build_payload tools tloc ploc params = Inr out" and "out k = Some r"
  shows "(\<forall>l. tloc (out_rowId r) = Some l \<and> tl_name l = Some [] \<longrightarrow> out_name r = k)
    \<and> (\<forall>a\<in>set (out_arguments r). \<forall>l.
          ploc (out_rowId r, arg_key a) = Some l \<and> pl_name l = Some [] \<longrightarrow>
          arg_name a = arg_key a)"
proof -
  have tool: "out_name r =
      py_or (case tloc (out_rowId r) of None \<Rightarrow> None | Some l \<Rightarrow> tl_name l) k"
    by (rule build_payload_output(2) [OF assms])
  have arg: "arg_name a =
      py_or (case ploc (out_rowId r, arg_key a) of None \<Rightarrow> None | Some l \<Rightarrow> pl_name l) (arg_key a)"
    if "a \<in> set (out_arguments r)" for a
  proof -
    from build_payload_argument [OF assms that]
    obtain p where "param_toolId p = out_rowId r" and "argument_record ploc p = Inr a"
      by blast
    with argument_record_fields(1,3) [of ploc p a] show ?thesis by simp
  qed
  show ?thesis
    by (auto simp add: tool arg py_or_def)
qed

theorem empty_name_substitution_witness:
  "build_payload example_tools example_tool_localizations example_parameter_localizations
     example_parameters = Inr example_compiled
   \<and> example_compiled ''a.two'' = Some example_two
   \<and> example_tool_localizations (out_rowId example_two) = Some (example_tl 2 ''en'' (Some []))
   \<and> tl_name (example_tl 2 ''en'' (Some [])) = Some []
   \<and> out_name example_two = ''a.two''
   \<and> example_compiled ''a.one'' = Some example_one
   \<and> example_argument ''y'' ''y'' 1 \<in> set (out_arguments example_one)
   \<and> example_parameter_localizations (out_rowId example_one, ''y'')
       = Some (example_pl 1 ''y'' ''en'' (Some []))
   \<and> pl_name (example_pl 1 ''y'' ''en'' (Some [])) = Some []
   \<and> arg_name (example_argument ''y'' ''y'' 1) = ''y''"
proof -
  from empty_name_substitution [OF example_build example_compiled_lookup(2)]
  have two: "out_name example_two = ''a.two''"
    by (simp add: example_rowIds example_tool_localizations_lookup example_localization_names)
  from empty_name_substitution [OF example_build example_compiled_lookup(1)]
  have one: "arg_name (example_argument ''y'' ''y'' 1) = ''y''"
    by (simp add: example_rowIds example_arguments example_argument_keys
        example_parameter_localizations_lookup example_localization_names)
  show ?thesis
    by (simp add: example_build example_compiled_lookup example_rowIds example_arguments one two
        example_tool_localizations_lookup example_parameter_localizations_lookup
        example_localization_names)
qed

text \<open>
  C10. Orphan parameters are dropped. Every record of the output carries the row
  identifier of a tool, and its \<^verbatim>\<open>arguments\<close> are built from the rows owned by that
  identifier; a parameter row whose owning tool identifier is the row identifier of no
  tool is among the rows behind no record, and leaving all such rows out of the input
  gives the same output.
\<close>

theorem orphans_dropped:
  assumes "build_payload tools tloc ploc params = Inr out"
  shows "build_payload tools tloc ploc
           (filter (\<lambda>p. param_toolId p \<in> tool_rowId ` set tools) params) = Inr out
    \<and> (\<forall>k r. out k = Some r \<longrightarrow>
          out_rowId r \<in> tool_rowId ` set tools
          \<and> list_all2 (\<lambda>a p. argument_record ploc p = Inr a) (out_arguments r)
              (filter (\<lambda>p. param_toolId p = out_rowId r) params))
    \<and> (\<forall>p\<in>set params. param_toolId p \<notin> tool_rowId ` set tools \<longrightarrow>
          (\<forall>k r. out k = Some r \<longrightarrow>
             p \<notin> set (filter (\<lambda>q. param_toolId q = out_rowId r) params)))"
proof (intro conjI)
  let ?owned = "filter (\<lambda>p. param_toolId p \<in> tool_rowId ` set tools) params"
  from assms obtain pbt where g: "group_parameters ploc params Map.empty = Inr pbt"
    and c: "compile_tools tloc pbt tools Map.empty = Inr out"
    by (auto simp add: build_payload_def split: sum.splits)
  have "\<forall>p\<in>set params. \<exists>a. argument_record ploc p = Inr a"
  proof
    fix p assume "p \<in> set params"
    then have "p \<in> set (filter (\<lambda>q. param_toolId q = param_toolId p) params)" by simp
    from list_all2_right_mem [OF group_parameters_arguments [OF g, of "param_toolId p"] this]
    show "\<exists>a. argument_record ploc p = Inr a"
      by blast
  qed
  then have "\<forall>p\<in>set ?owned. \<exists>a. argument_record ploc p = Inr a" by simp
  from group_parameters_total [OF this]
  obtain pbt' where g': "group_parameters ploc ?owned Map.empty = Inr pbt'" by blast
  have "tool_record tloc pbt' t = tool_record tloc pbt t" if "t \<in> set tools" for t
  proof (rule tool_record_cong)
    have "filter (\<lambda>p. param_toolId p = tool_rowId t) ?owned
            = filter (\<lambda>p. param_toolId p = tool_rowId t) params"
      unfolding filter_filter using that by (intro filter_cong refl) auto
    with group_parameters_arguments [OF g', of "tool_rowId t"]
    have "list_all2 (\<lambda>a p. argument_record ploc p = Inr a) (get_list pbt' (tool_rowId t))
            (filter (\<lambda>p. param_toolId p = tool_rowId t) params)"
      by simp
    then show "get_list pbt' (tool_rowId t) = get_list pbt (tool_rowId t)"
      using group_parameters_arguments [OF g, of "tool_rowId t"]
      by (rule list_all2_functional)
  qed
  then have "compile_tools tloc pbt' tools Map.empty = compile_tools tloc pbt tools Map.empty"
    by (intro compile_tools_cong) simp
  with g' c show "build_payload tools tloc ploc ?owned = Inr out"
    by (simp add: build_payload_def)
  show "\<forall>k r. out k = Some r \<longrightarrow>
          out_rowId r \<in> tool_rowId ` set tools
          \<and> list_all2 (\<lambda>a p. argument_record ploc p = Inr a) (out_arguments r)
              (filter (\<lambda>p. param_toolId p = out_rowId r) params)"
  proof (intro allI impI conjI)
    fix k r assume o: "out k = Some r"
    from build_payload_output(1) [OF assms o]
    show "out_rowId r \<in> tool_rowId ` set tools" .
    from build_payload_output(3) [OF assms o]
    show "list_all2 (\<lambda>a p. argument_record ploc p = Inr a) (out_arguments r)
              (filter (\<lambda>p. param_toolId p = out_rowId r) params)" .
  qed
  show "\<forall>p\<in>set params. param_toolId p \<notin> tool_rowId ` set tools \<longrightarrow>
          (\<forall>k r. out k = Some r \<longrightarrow>
             p \<notin> set (filter (\<lambda>q. param_toolId q = out_rowId r) params))"
  proof (intro ballI allI impI)
    fix p :: parameter_row and k r
    assume "param_toolId p \<notin> tool_rowId ` set tools" and o: "out k = Some r"
    with build_payload_output(1) [OF assms o]
    have "param_toolId p \<noteq> out_rowId r" by metis
    then show "p \<notin> set (filter (\<lambda>q. param_toolId q = out_rowId r) params)"
      by simp
  qed
qed

theorem orphans_dropped_witness:
  "build_payload example_tools example_tool_localizations example_parameter_localizations
     example_parameters = Inr example_compiled
   \<and> example_param 7 ''orphan'' 0 \<in> set example_parameters
   \<and> param_toolId (example_param 7 ''orphan'' 0) \<notin> tool_rowId ` set example_tools
   \<and> build_payload example_tools example_tool_localizations example_parameter_localizations
       [example_param 1 ''x'' 0, example_param 1 ''y'' 1, example_param 3 ''z'' 0]
       = Inr example_compiled"
proof -
  have f: "filter (\<lambda>p. param_toolId p \<in> tool_rowId ` set example_tools) example_parameters
      = [example_param 1 ''x'' 0, example_param 1 ''y'' 1, example_param 3 ''z'' 0]"
    by (simp add: example_tool_rowIds example_parameters_def example_param_toolId)
  from orphans_dropped [OF example_build]
  have "build_payload example_tools example_tool_localizations example_parameter_localizations
       [example_param 1 ''x'' 0, example_param 1 ''y'' 1, example_param 3 ''z'' 0]
       = Inr example_compiled"
    unfolding f by blast
  moreover have "example_param 7 ''orphan'' 0 \<in> set example_parameters"
    by (simp add: example_parameters_def)
  moreover have "param_toolId (example_param 7 ''orphan'' 0) \<notin> tool_rowId ` set example_tools"
    by (simp add: example_tool_rowIds example_param_toolId)
  ultimately show ?thesis
    by (simp add: example_build)
qed

end
